theory Spec2Isabelle
  imports Main
begin

section \<open>Go strings: the helpers of package strings the code calls\<close>

text \<open>
  A Go string is a sequence of bytes; \<open>string\<close> (a list of 8-bit characters) is
  the same thing. The functions below are the ones of package \<open>strings\<close> that
  \<open>chartrepo.go\<close> and \<open>net/url\<close> call.
\<close>

definition HasPrefix :: "string \<Rightarrow> string \<Rightarrow> bool" where
  "HasPrefix s p = (take (length p) s = p)"

definition HasSuffix :: "string \<Rightarrow> string \<Rightarrow> bool" where
  "HasSuffix s p = (length p \<le> length s \<and> drop (length s - length p) s = p)"


definition TrimSuffix :: "string \<Rightarrow> string \<Rightarrow> string" where
  "TrimSuffix s suf = (if HasSuffix s suf then take (length s - length suf) s else s)"

definition TrimPrefix :: "string \<Rightarrow> string \<Rightarrow> string" where
  "TrimPrefix s p = (if HasPrefix s p then drop (length p) s else s)"

text \<open>\<open>Index s sub\<close>: the position of the first occurrence, \<open>None\<close> for Go's -1.\<close>

fun Index :: "string \<Rightarrow> string \<Rightarrow> nat option" where
  "Index [] sub = (if sub = [] then Some 0 else None)"
| "Index (c # s) sub =
     (if HasPrefix (c # s) sub then Some 0 else map_option Suc (Index s sub))"

text \<open>\<open>IndexByte\<close> and \<open>LastIndexByte\<close>, again with \<open>None\<close> for -1.\<close>

fun IndexByte :: "string \<Rightarrow> char \<Rightarrow> nat option" where
  "IndexByte [] c = None"
| "IndexByte (x # s) c = (if x = c then Some 0 else map_option Suc (IndexByte s c))"

definition LastIndexByte :: "string \<Rightarrow> char \<Rightarrow> nat option" where
  "LastIndexByte s c =
     map_option (\<lambda>i. length s - Suc i) (IndexByte (rev s) c)"

text \<open>\<open>Split s [sep]\<close> for a one-byte separator: never the empty list.\<close>

fun Split :: "string \<Rightarrow> char \<Rightarrow> string list" where
  "Split [] sep = [[]]"
| "Split (x # s) sep =
     (if x = sep then [] # Split s sep
      else (case Split s sep of [] \<Rightarrow> [[x]] | w # ws \<Rightarrow> (x # w) # ws))"

fun Join :: "string list \<Rightarrow> string \<Rightarrow> string" where
  "Join [] sep = []"
| "Join [w] sep = w"
| "Join (w # v # ws) sep = w @ sep @ Join (v # ws) sep"

definition ReplaceAllByte :: "string \<Rightarrow> char \<Rightarrow> char \<Rightarrow> string" where
  "ReplaceAllByte s old new = map (\<lambda>c. if c = old then new else c) s"

definition byte :: "char \<Rightarrow> nat" where
  "byte c = of_char c"

definition isLetter :: "char \<Rightarrow> bool" where
  "isLetter c = (97 \<le> byte c \<and> byte c \<le> 122 \<or> 65 \<le> byte c \<and> byte c \<le> 90)"

definition isDigit :: "char \<Rightarrow> bool" where
  "isDigit c = (48 \<le> byte c \<and> byte c \<le> 57)"

text \<open>\<open>strings.ToLower\<close> on ASCII: the only use is on a URL scheme.\<close>

definition ToLower :: "string \<Rightarrow> string" where
  "ToLower s = map (\<lambda>c. if 65 \<le> byte c \<and> byte c \<le> 90 then char_of (byte c + 32) else c) s"

section \<open>Errors\<close>

text \<open>
  A Go \<open>error\<close> is a value. The errors of \<open>net/url\<close> keep their kind; the errors the
  repository builds with \<open>errors.Errorf\<close> keep their message, and \<open>errors.Wrap\<close>
  keeps the error it wraps.
\<close>

datatype url_err =
    InvalidControlCharacter
  | MissingProtocolScheme
  | FirstPathSegmentColon
  | EscapeError string
  | InvalidHostError string
  | MissingBracket
  | InvalidPort string
  | InvalidUserinfo

datatype error =
    Errorf string
  | Wrap error string
  | UrlParseError string url_err

section \<open>Go net/url: Parse, ResolveReference, String\<close>

text \<open>
  \<open>ResolveReferenceURL\<close> and \<open>DownloadIndexFile\<close> are thin wrappers around Go's
  \<open>net/url\<close>, so the library is modelled function by function, after the sources
  of Go 1.15, percent-encoding included.
\<close>

datatype encoding =
    encodePath | encodePathSegment | encodeHost | encodeZone
  | encodeUserPassword | encodeQueryComponent | encodeFragment

record Userinfo =
  username :: string
  password :: string
  passwordSet :: bool

record URL =
  Scheme :: string
  Opaque :: string
  User :: "Userinfo option"
  Host :: string
  Path :: string
  RawPath :: string
  ForceQuery :: bool
  RawQuery :: string
  Fragment :: string
  RawFragment :: string

definition emptyURL :: URL where
  "emptyURL = \<lparr>Scheme = [], Opaque = [], User = None, Host = [], Path = [], RawPath = [],
     ForceQuery = False, RawQuery = [], Fragment = [], RawFragment = []\<rparr>"

definition ishex :: "char \<Rightarrow> bool" where
  "ishex c = (isDigit c \<or> 97 \<le> byte c \<and> byte c \<le> 102 \<or> 65 \<le> byte c \<and> byte c \<le> 70)"

definition unhex :: "char \<Rightarrow> nat" where
  "unhex c = (if isDigit c then byte c - 48
     else if 97 \<le> byte c \<and> byte c \<le> 102 then byte c - 97 + 10
     else if 65 \<le> byte c \<and> byte c \<le> 70 then byte c - 65 + 10
     else 0)"

definition upperhex :: "nat \<Rightarrow> char" where
  "upperhex n = ''0123456789ABCDEF'' ! (n mod 16)"

definition shouldEscape :: "char \<Rightarrow> encoding \<Rightarrow> bool" where
  "shouldEscape c mode =
     (if isLetter c \<or> isDigit c then False
      else if (mode = encodeHost \<or> mode = encodeZone) \<and> c \<in> set (CHR 0x22 # ''!$&()*+,;=:[]<>'' @ [CHR 0x27])
        then False
      else if c \<in> set ''-_.~'' then False
      else if c \<in> set ''$&+,/:;=?@'' then
        (case mode of
           encodePath \<Rightarrow> c = CHR ''?''
         | encodePathSegment \<Rightarrow> c \<in> set ''/;,?''
         | encodeUserPassword \<Rightarrow> c \<in> set ''@/?:''
         | encodeQueryComponent \<Rightarrow> True
         | encodeFragment \<Rightarrow> False
         | _ \<Rightarrow> True)
      else if mode = encodeFragment \<and> c \<in> set ''!()*'' then False
      else True)"

text \<open>
  \<open>unescape\<close> first checks that every \<open>%\<close> starts a well-formed escape (and, in a
  host, that no byte is written that a host cannot hold), then decodes.
\<close>

fun unescape_check :: "encoding \<Rightarrow> string \<Rightarrow> url_err option" where
  "unescape_check mode [] = None"
| "unescape_check mode (c # s) =
     (if c = CHR ''%'' then
        (case s of
           h1 # h2 # rest \<Rightarrow>
             if \<not> ishex h1 \<or> \<not> ishex h2 then Some (EscapeError (take 3 (c # s)))
             else if mode = encodeHost \<and> unhex h1 < 8 \<and> [c, h1, h2] \<noteq> ''%25''
               then Some (EscapeError [c, h1, h2])
             else if mode = encodeZone \<and> [c, h1, h2] \<noteq> ''%25''
                 \<and> unhex h1 * 16 + unhex h2 \<noteq> 32
                 \<and> shouldEscape (char_of (unhex h1 * 16 + unhex h2)) encodeHost
               then Some (EscapeError [c, h1, h2])
             else unescape_check mode rest
         | _ \<Rightarrow> Some (EscapeError (take 3 (c # s))))
      else if (mode = encodeHost \<or> mode = encodeZone) \<and> byte c < 128 \<and> shouldEscape c encodeHost
        then Some (InvalidHostError [c])
      else unescape_check mode s)"

fun unescape_bytes :: "encoding \<Rightarrow> string \<Rightarrow> string" where
  "unescape_bytes mode [] = []"
| "unescape_bytes mode (c # s) =
     (if c = CHR ''%'' then
        (case s of
           h1 # h2 # rest \<Rightarrow> char_of (unhex h1 * 16 + unhex h2) # unescape_bytes mode rest
         | _ \<Rightarrow> c # s)
      else if c = CHR ''+'' \<and> mode = encodeQueryComponent then CHR '' '' # unescape_bytes mode s
      else c # unescape_bytes mode s)"

definition unescape :: "string \<Rightarrow> encoding \<Rightarrow> url_err + string" where
  "unescape s mode =
     (case unescape_check mode s of
        Some e \<Rightarrow> Inl e
      | None \<Rightarrow> Inr (unescape_bytes mode s))"

definition escape :: "string \<Rightarrow> encoding \<Rightarrow> string" where
  "escape s mode =
     concat (map (\<lambda>c.
       if shouldEscape c mode then
         (if c = CHR '' '' \<and> mode = encodeQueryComponent then ''+''
          else [CHR ''%'', upperhex (byte c div 16), upperhex (byte c mod 16)])
       else [c]) s)"

definition validEncoded :: "string \<Rightarrow> encoding \<Rightarrow> bool" where
  "validEncoded s mode =
     list_all (\<lambda>c. c \<in> set (''!$&()*+,;=:@[]%'' @ [CHR 0x27]) \<or> \<not> shouldEscape c mode) s"

definition setPath :: "URL \<Rightarrow> string \<Rightarrow> url_err + URL" where
  "setPath u p =
     (case unescape p encodePath of
        Inl e \<Rightarrow> Inl e
      | Inr path \<Rightarrow>
          Inr (u\<lparr>Path := path, RawPath := (if p = escape path encodePath then [] else p)\<rparr>))"

definition EscapedPath :: "URL \<Rightarrow> string" where
  "EscapedPath u =
     (if RawPath u \<noteq> [] \<and> validEncoded (RawPath u) encodePath
         \<and> unescape (RawPath u) encodePath = Inr (Path u)
      then RawPath u
      else if Path u = ''*'' then ''*''
      else escape (Path u) encodePath)"

definition setFragment :: "URL \<Rightarrow> string \<Rightarrow> url_err + URL" where
  "setFragment u f =
     (case unescape f encodeFragment of
        Inl e \<Rightarrow> Inl e
      | Inr frag \<Rightarrow>
          Inr (u\<lparr>Fragment := frag,
                 RawFragment := (if f = escape frag encodeFragment then [] else f)\<rparr>))"

definition EscapedFragment :: "URL \<Rightarrow> string" where
  "EscapedFragment u =
     (if RawFragment u \<noteq> [] \<and> validEncoded (RawFragment u) encodeFragment
         \<and> unescape (RawFragment u) encodeFragment = Inr (Fragment u)
      then RawFragment u
      else escape (Fragment u) encodeFragment)"

text \<open>\<open>getScheme\<close>: the scan keeps the bytes read so far in \<open>pre\<close>.\<close>

fun getScheme_scan :: "string \<Rightarrow> string \<Rightarrow> url_err + (string \<times> string)" where
  "getScheme_scan pre [] = Inr ([], pre)"
| "getScheme_scan pre (c # s) =
     (if isLetter c then getScheme_scan (pre @ [c]) s
      else if isDigit c \<or> c = CHR ''+'' \<or> c = CHR ''-'' \<or> c = CHR ''.'' then
        (if pre = [] then Inr ([], c # s) else getScheme_scan (pre @ [c]) s)
      else if c = CHR '':'' then
        (if pre = [] then Inl MissingProtocolScheme else Inr (pre, s))
      else Inr ([], pre @ c # s))"

definition getScheme :: "string \<Rightarrow> url_err + (string \<times> string)" where
  "getScheme rawURL = getScheme_scan [] rawURL"

definition stringContainsCTLByte :: "string \<Rightarrow> bool" where
  "stringContainsCTLByte s = list_ex (\<lambda>c. byte c < 32 \<or> byte c = 127) s"

definition validOptionalPort :: "string \<Rightarrow> bool" where
  "validOptionalPort port =
     (case port of
        [] \<Rightarrow> True
      | c # ds \<Rightarrow> c = CHR '':'' \<and> list_all isDigit ds)"

definition validUserinfo :: "string \<Rightarrow> bool" where
  "validUserinfo s =
     list_all (\<lambda>c. isLetter c \<or> isDigit c \<or> c \<in> set (''-._:~!$&()*+,;=%@'' @ [CHR 0x27])) s"

definition parseHost :: "string \<Rightarrow> url_err + string" where
  "parseHost host =
     (if HasPrefix host ''['' then
        (case LastIndexByte host (CHR '']'') of
           None \<Rightarrow> Inl MissingBracket
         | Some i \<Rightarrow>
             if \<not> validOptionalPort (drop (Suc i) host) then Inl (InvalidPort (drop (Suc i) host))
             else
               (case Index (take i host) ''%25'' of
                  Some zone \<Rightarrow>
                    (case unescape (take zone host) encodeHost of
                       Inl e \<Rightarrow> Inl e
                     | Inr host1 \<Rightarrow>
                         (case unescape (drop zone (take i host)) encodeZone of
                            Inl e \<Rightarrow> Inl e
                          | Inr host2 \<Rightarrow>
                              (case unescape (drop i host) encodeHost of
                                 Inl e \<Rightarrow> Inl e
                               | Inr host3 \<Rightarrow> Inr (host1 @ host2 @ host3))))
                | None \<Rightarrow> unescape host encodeHost))
      else
        (case LastIndexByte host (CHR '':'') of
           Some i \<Rightarrow>
             if \<not> validOptionalPort (drop i host) then Inl (InvalidPort (drop i host))
             else unescape host encodeHost
         | None \<Rightarrow> unescape host encodeHost))"

definition parseUserinfo :: "string \<Rightarrow> url_err + Userinfo" where
  "parseUserinfo userinfo =
     (if \<not> validUserinfo userinfo then Inl InvalidUserinfo
      else
        (case IndexByte userinfo (CHR '':'') of
           None \<Rightarrow>
             (case unescape userinfo encodeUserPassword of
                Inl e \<Rightarrow> Inl e
              | Inr n \<Rightarrow> Inr \<lparr>username = n, password = [], passwordSet = False\<rparr>)
         | Some i \<Rightarrow>
             (case unescape (take i userinfo) encodeUserPassword of
                Inl e \<Rightarrow> Inl e
              | Inr n \<Rightarrow>
                  (case unescape (drop (Suc i) userinfo) encodeUserPassword of
                     Inl e \<Rightarrow> Inl e
                   | Inr pw \<Rightarrow> Inr \<lparr>username = n, password = pw, passwordSet = True\<rparr>))))"

definition parseAuthority :: "string \<Rightarrow> url_err + (Userinfo option \<times> string)" where
  "parseAuthority authority =
     (case LastIndexByte authority (CHR ''@'') of
        None \<Rightarrow>
          (case parseHost authority of
             Inl e \<Rightarrow> Inl e
           | Inr host \<Rightarrow> Inr (None, host))
      | Some i \<Rightarrow>
          (case parseHost (drop (Suc i) authority) of
             Inl e \<Rightarrow> Inl e
           | Inr host \<Rightarrow>
               (case parseUserinfo (take i authority) of
                  Inl e \<Rightarrow> Inl e
                | Inr ui \<Rightarrow> Inr (Some ui, host))))"

text \<open>
  \<open>parse rawURL False\<close>: the URL without its fragment. The steps are Go's: control
  bytes, the lone \<open>*\<close>, the scheme, the query, an opaque or a relative rest, the
  authority, the path.
\<close>

definition parse_rest :: "URL \<Rightarrow> string \<Rightarrow> url_err + URL" where
  "parse_rest url rest =
     (if (Scheme url \<noteq> [] \<or> \<not> HasPrefix rest ''///'') \<and> HasPrefix rest ''//'' then
        (let authority0 = drop 2 rest;
             authority = (case IndexByte authority0 (CHR ''/'') of
                            None \<Rightarrow> authority0 | Some i \<Rightarrow> take i authority0);
             rest' = (case IndexByte authority0 (CHR ''/'') of
                        None \<Rightarrow> [] | Some i \<Rightarrow> drop i authority0)
         in case parseAuthority authority of
              Inl e \<Rightarrow> Inl e
            | Inr (user, host) \<Rightarrow> setPath (url\<lparr>User := user, Host := host\<rparr>) rest')
      else setPath url rest)"

definition parse :: "string \<Rightarrow> url_err + URL" where
  "parse rawURL =
     (if stringContainsCTLByte rawURL then Inl InvalidControlCharacter
      else if rawURL = ''*'' then Inr (emptyURL\<lparr>Path := ''*''\<rparr>)
      else
        (case getScheme rawURL of
           Inl e \<Rightarrow> Inl e
         | Inr (scheme, rest0) \<Rightarrow>
             (let url0 = emptyURL\<lparr>Scheme := ToLower scheme\<rparr>;
                  force = (HasSuffix rest0 ''?'' \<and> count_list rest0 (CHR ''?'') = 1);
                  rest = (if force then butlast rest0
                          else (case IndexByte rest0 (CHR ''?'') of
                                  None \<Rightarrow> rest0 | Some i \<Rightarrow> take i rest0));
                  query = (if force then []
                           else (case IndexByte rest0 (CHR ''?'') of
                                   None \<Rightarrow> [] | Some i \<Rightarrow> drop (Suc i) rest0));
                  url = url0\<lparr>ForceQuery := force, RawQuery := query\<rparr>
              in if \<not> HasPrefix rest ''/'' then
                   (if Scheme url \<noteq> [] then Inr (url\<lparr>Opaque := rest\<rparr>)
                    else if CHR '':'' \<in> set (hd (Split rest (CHR ''/''))) then Inl FirstPathSegmentColon
                    else parse_rest url rest)
                 else parse_rest url rest)))"

definition url_Parse :: "string \<Rightarrow> error + URL" where
  "url_Parse rawURL =
     (let u = (case IndexByte rawURL (CHR ''#'') of None \<Rightarrow> rawURL | Some i \<Rightarrow> take i rawURL);
          frag = (case IndexByte rawURL (CHR ''#'') of None \<Rightarrow> [] | Some i \<Rightarrow> drop (Suc i) rawURL)
      in case parse u of
           Inl e \<Rightarrow> Inl (UrlParseError u e)
         | Inr url \<Rightarrow>
             if frag = [] then Inr url
             else (case setFragment url frag of
                     Inl e \<Rightarrow> Inl (UrlParseError rawURL e)
                   | Inr url' \<Rightarrow> Inr url'))"

definition Userinfo_String :: "Userinfo \<Rightarrow> string" where
  "Userinfo_String ui =
     escape (username ui) encodeUserPassword
       @ (if passwordSet ui then '':'' @ escape (password ui) encodeUserPassword else [])"

text \<open>\<open>String\<close> reassembles the URL; \<open>buf\<close> is what Go's builder holds before the path.\<close>

definition URL_String :: "URL \<Rightarrow> string" where
  "URL_String u =
     (let buf0 = (if Scheme u \<noteq> [] then Scheme u @ '':'' else []);
          body =
            (if Opaque u \<noteq> [] then buf0 @ Opaque u
             else
               (let buf1 =
                      (if Scheme u \<noteq> [] \<or> Host u \<noteq> [] \<or> User u \<noteq> None then
                         buf0
                           @ (if Host u \<noteq> [] \<or> Path u \<noteq> [] \<or> User u \<noteq> None then ''//'' else [])
                           @ (case User u of None \<Rightarrow> [] | Some ui \<Rightarrow> Userinfo_String ui @ ''@'')
                           @ (if Host u \<noteq> [] then escape (Host u) encodeHost else [])
                       else buf0);
                    path = EscapedPath u;
                    buf2 = (if path \<noteq> [] \<and> hd path \<noteq> CHR ''/'' \<and> Host u \<noteq> [] then buf1 @ ''/'' else buf1);
                    buf3 =
                      (if buf2 = [] then
                         (case IndexByte path (CHR '':'') of
                            Some i \<Rightarrow> (if IndexByte (take i path) (CHR ''/'') = None then ''./'' else [])
                          | None \<Rightarrow> [])
                       else buf2)
                in buf3 @ path))
      in body
           @ (if ForceQuery u \<or> RawQuery u \<noteq> [] then ''?'' @ RawQuery u else [])
           @ (if Fragment u \<noteq> [] then ''#'' @ EscapedFragment u else []))"

text \<open>
  \<open>resolvePath\<close>: the reference path is put after the last slash of the base path,
  then \<open>.\<close> and \<open>..\<close> elements are removed.
\<close>

fun removeDots :: "string list \<Rightarrow> string list \<Rightarrow> string list" where
  "removeDots dst [] = dst"
| "removeDots dst (elem # src) =
     (if elem = ''.'' then removeDots dst src
      else if elem = ''..'' then removeDots (butlast dst) src
      else removeDots (dst @ [elem]) src)"

definition resolvePath :: "string \<Rightarrow> string \<Rightarrow> string" where
  "resolvePath base ref =
     (let full =
            (if ref = [] then base
             else if hd ref \<noteq> CHR ''/'' then
               (case LastIndexByte base (CHR ''/'') of
                  None \<Rightarrow> ref
                | Some i \<Rightarrow> take (Suc i) base @ ref)
             else ref)
      in if full = [] then []
         else
           (let src = Split full (CHR ''/'');
                dst0 = removeDots [] src;
                dst = (if last src = ''.'' \<or> last src = ''..'' then dst0 @ [[]] else dst0)
            in ''/'' @ TrimPrefix (Join dst ''/'') ''/''))"

text \<open>The error of \<open>setPath\<close> is dropped, as Go drops it: the URL is then left as it was.\<close>

definition setPath_ignore :: "URL \<Rightarrow> string \<Rightarrow> URL" where
  "setPath_ignore u p = (case setPath u p of Inl e \<Rightarrow> u | Inr u' \<Rightarrow> u')"

definition ResolveReference :: "URL \<Rightarrow> URL \<Rightarrow> URL" where
  "ResolveReference u ref =
     (let url = (if Scheme ref = [] then ref\<lparr>Scheme := Scheme u\<rparr> else ref)
      in if Scheme ref \<noteq> [] \<or> Host ref \<noteq> [] \<or> User ref \<noteq> None then
           setPath_ignore url (resolvePath (EscapedPath ref) [])
         else if Opaque ref \<noteq> [] then
           url\<lparr>User := None, Host := [], Path := []\<rparr>
         else
           (let url1 =
                  (if Path ref = [] \<and> \<not> ForceQuery ref \<and> RawQuery ref = [] then
                     (if Fragment ref = [] then
                        url\<lparr>RawQuery := RawQuery u, Fragment := Fragment u, RawFragment := RawFragment u\<rparr>
                      else url\<lparr>RawQuery := RawQuery u\<rparr>)
                   else url)
            in setPath_ignore (url1\<lparr>Host := Host u, User := User u\<rparr>)
                 (resolvePath (EscapedPath u) (EscapedPath ref))))"

section \<open>Go path: Clean and Join\<close>

text \<open>
  \<open>path.Clean\<close>, element by element: empty and \<open>.\<close> elements go, \<open>..\<close> removes the
  element before it, is kept at the front of a relative path, and is dropped at the
  root. \<open>out\<close> holds the elements written so far.
\<close>

fun cleanElems :: "bool \<Rightarrow> string list \<Rightarrow> string list \<Rightarrow> string list" where
  "cleanElems rooted out [] = out"
| "cleanElems rooted out (e # es) =
     (if e = [] \<or> e = ''.'' then cleanElems rooted out es
      else if e = ''..'' then
        (if out \<noteq> [] \<and> last out \<noteq> ''..'' then cleanElems rooted (butlast out) es
         else if \<not> rooted then cleanElems rooted (out @ [e]) es
         else cleanElems rooted out es)
      else cleanElems rooted (out @ [e]) es)"

definition path_Clean :: "string \<Rightarrow> string" where
  "path_Clean p =
     (if p = [] then ''.''
      else
        (let rooted = (hd p = CHR ''/'');
             out = (if rooted then ''/'' else []) @ Join (cleanElems rooted [] (Split p (CHR ''/''))) ''/''
         in if out = [] then ''.'' else out))"

definition path_Join :: "string list \<Rightarrow> string" where
  "path_Join elems =
     (let nonempty = dropWhile (\<lambda>e. e = []) elems
      in if nonempty = [] then [] else path_Clean (Join nonempty ''/''))"

text \<open>\<open>filepath.Join\<close> and \<open>filepath.Dir\<close> on a Unix host, where the separator is the slash.\<close>

definition filepath_Join :: "string list \<Rightarrow> string" where
  "filepath_Join elems = path_Join elems"

definition filepath_Dir :: "string \<Rightarrow> string" where
  "filepath_Dir p =
     path_Clean (case LastIndexByte p (CHR ''/'') of None \<Rightarrow> [] | Some i \<Rightarrow> take (Suc i) p)"

section \<open>The index data model\<close>

text \<open>
  \<open>index.go\<close> (type \<open>IndexFile\<close> and its methods) is not among the source files, so
  the records follow the data model of the specification: a version record holds the
  package name, the version string, the content digest, the download URLs and the
  creation time; a catalog holds a format tag, its generation time and, per package
  name, a sequence of version records.
\<close>

record ChartVersion =
  cv_Name :: string
  cv_Version :: string
  Digest :: string
  URLs :: "string list"
  Created :: nat

record IndexFile =
  APIVersion :: string
  Generated :: nat
  Entries :: "string \<rightharpoonup> ChartVersion list"

text \<open>
  Modelled from the spec: \<open>NewIndexFile\<close> of \<open>index.go\<close> is missing. "Empty catalog,
  generation timestamp = now, format tag set to the current schema version"; the tag
  and the time are arguments.
\<close>

definition NewIndexFile :: "string \<Rightarrow> nat \<Rightarrow> IndexFile" where
  "NewIndexFile tag now = \<lparr>APIVersion = tag, Generated = now, Entries = Map.empty\<rparr>"

text \<open>
  Modelled from the spec: \<open>IndexFile.Has\<close> of \<open>index.go\<close> is missing. "Exact string
  match on package name and version."
\<close>

definition Has :: "IndexFile \<Rightarrow> string \<Rightarrow> string \<Rightarrow> bool" where
  "Has i name version =
     (case Entries i name of
        None \<Rightarrow> False
      | Some cvs \<Rightarrow> list_ex (\<lambda>cv. cv_Version cv = version) cvs)"

text \<open>
  Modelled from the spec: \<open>IndexFile.Add\<close> of \<open>index.go\<close> is missing. "If a record
  with the same package name and exact version string already exists, no-op;
  otherwise append to that package's sequence."
\<close>

definition Add :: "IndexFile \<Rightarrow> ChartVersion \<Rightarrow> IndexFile" where
  "Add i cv =
     (if Has i (cv_Name cv) (cv_Version cv) then i
      else i\<lparr>Entries := (Entries i)(cv_Name cv \<mapsto>
             (case Entries i (cv_Name cv) of None \<Rightarrow> [] | Some cvs \<Rightarrow> cvs) @ [cv])\<rparr>)"

text \<open>
  Modelled from the spec: \<open>IndexFile.Merge\<close> of \<open>index.go\<close> is missing. "For each
  package present only in other, copy its full version sequence into the receiver.
  For packages present in both, append from other only those version strings absent
  from the receiver (receiver entries are never overwritten). Does not re-sort."
\<close>

definition Merge :: "IndexFile \<Rightarrow> IndexFile \<Rightarrow> IndexFile" where
  "Merge i other =
     i\<lparr>Entries := (\<lambda>name.
          case Entries other name of
            None \<Rightarrow> Entries i name
          | Some theirs \<Rightarrow>
              (case Entries i name of
                 None \<Rightarrow> Some theirs
               | Some own \<Rightarrow>
                   Some (own @ filter (\<lambda>cv. \<not> list_ex (\<lambda>mine. cv_Version mine = cv_Version cv) own) theirs)))\<rparr>"

text \<open>
  Modelled from the spec: \<open>IndexFile.SortEntries\<close> of \<open>index.go\<close> is missing. "For
  every package, sort its version sequence in descending semantic-version precedence;
  version strings that fail to parse sort after all valid ones, retaining their
  relative input order among themselves (stable sort)." The semantic-version parser
  is the argument \<open>semver\<close>: it gives the precedence of a version string as an
  element of a linear order, or nothing when the string does not parse.
  \<open>before semver a b\<close> says that version \<open>a\<close> must come strictly before \<open>b\<close>.
\<close>

definition before :: "(string \<Rightarrow> 'v::linorder option) \<Rightarrow> string \<Rightarrow> string \<Rightarrow> bool" where
  "before semver a b =
     (case semver a of
        None \<Rightarrow> False
      | Some x \<Rightarrow> (case semver b of None \<Rightarrow> True | Some y \<Rightarrow> y < x))"

fun insert_version ::
  "(string \<Rightarrow> 'v::linorder option) \<Rightarrow> ChartVersion \<Rightarrow> ChartVersion list \<Rightarrow> ChartVersion list" where
  "insert_version semver cv [] = [cv]"
| "insert_version semver cv (x # xs) =
     (if before semver (cv_Version x) (cv_Version cv) then x # insert_version semver cv xs
      else cv # x # xs)"

definition sort_versions ::
  "(string \<Rightarrow> 'v::linorder option) \<Rightarrow> ChartVersion list \<Rightarrow> ChartVersion list" where
  "sort_versions semver cvs = foldr (insert_version semver) cvs []"

definition SortEntries :: "(string \<Rightarrow> 'v::linorder option) \<Rightarrow> IndexFile \<Rightarrow> IndexFile" where
  "SortEntries semver i =
     i\<lparr>Entries := (\<lambda>name. map_option (sort_versions semver) (Entries i name))\<rparr>"

section \<open>The chart repository (chartrepo.go)\<close>

record Entry =
  Name :: string
  URL :: string
  Username :: string
  Password :: string
  CertFile :: string
  KeyFile :: string
  CAFile :: string
  InsecureSkipTLSverify :: bool

text \<open>
  The options \<open>DownloadIndexFile\<close> hands to the getter: \<open>WithURL\<close>,
  \<open>WithInsecureSkipVerifyTLS\<close>, \<open>WithTLSClientConfig\<close> and \<open>WithBasicAuth\<close>.
\<close>

record GetOptions =
  opt_URL :: string
  opt_InsecureSkipVerifyTLS :: bool
  opt_CertFile :: string
  opt_KeyFile :: string
  opt_CAFile :: string
  opt_Username :: string
  opt_Password :: string

text \<open>
  A getter answers a request with the bytes of the response or with an error. What a
  remote repository serves changes with time, so the answer also depends on how many
  requests the process has sent before. \<open>Providers\<close> is \<open>getter.Providers\<close> seen
  through \<open>ByScheme\<close>.
\<close>

type_synonym Getter = "nat \<Rightarrow> string \<Rightarrow> GetOptions \<Rightarrow> error + string"

type_synonym Providers = "string \<Rightarrow> error + Getter"

record ChartRepository =
  Config :: Entry
  ChartPaths :: "string list"
  IndexFile :: IndexFile
  Client :: Getter
  CachePath :: string

text \<open>
  What the cache holds under a key is an \<open>interface{}\<close>: the code stores a
  \<open>*IndexFile\<close> in one place and the cache object itself, \<open>IndexFileCache\<close>, in
  another.
\<close>

datatype cache_value = IndexValue IndexFile | CacheValue

text \<open>
  File operations: \<open>os.MkdirAll\<close>, \<open>ioutil.WriteFile\<close> with the bytes written, and
  \<open>IndexFile.WriteFile\<close> with the index that is serialised.
\<close>

datatype fs_op = MkdirAll string | WriteFile string string | WriteIndexFile string IndexFile

text \<open>
  The mutable world of the process: the entries of \<open>IndexFileCache\<close> that have not
  expired, the requests sent to the network, the file operations performed, the
  number of calls of \<open>rand.Read\<close>, and the calls of \<open>IndexFile.Get\<close> made so far
  (package name and constraint of each), kept so that "how often" can be stated.
\<close>

record world =
  IndexFileCache :: "string \<rightharpoonup> cache_value"
  requests :: "(string \<times> GetOptions) list"
  disk :: "fs_op list"
  randCalls :: nat
  lookups :: "(string \<times> string) list"

text \<open>
  The collaborators of \<open>chartrepo.go\<close> that are not in the source files: \<open>%q\<close> of
  \<open>fmt\<close>, \<open>loadIndex\<close>, \<open>LoadIndexFile\<close> and \<open>IndexFile.Get\<close> of \<open>index.go\<close>, the
  result of \<open>ioutil.WriteFile\<close>, package \<open>helmpath\<close>, the text \<open>rand.Read\<close> and
  base64 give at each call, the order in which \<open>range\<close> visits the keys of a map,
  the clock, the chart loader, the digest, \<open>os.Stat\<close>, \<open>os.IsNotExist\<close> and
  \<open>filepath.Walk\<close>, and \<open>IndexDirectory\<close> and the result of \<open>IndexFile.WriteFile\<close>,
  again of \<open>index.go\<close>.
\<close>

record FileInfo =
  f_Name :: string
  f_IsDir :: bool

record ChartMetadata =
  md_Name :: string
  md_Version :: string

record ext =
  Quote :: "string \<Rightarrow> string"
  loadIndex :: "string \<Rightarrow> error + IndexFile"
  LoadIndexFile :: "string \<Rightarrow> error + IndexFile"
  IndexFile_Get :: "IndexFile \<Rightarrow> string \<Rightarrow> string \<Rightarrow> error + ChartVersion"
  WriteFile_result :: "string \<Rightarrow> string \<Rightarrow> error option"
  helmpath_CachePath :: "string \<Rightarrow> string"
  CacheChartsFile :: "string \<Rightarrow> string"
  CacheIndexFile :: "string \<Rightarrow> string"
  randomBase64 :: "nat \<Rightarrow> string"
  rangeKeys :: "IndexFile \<Rightarrow> string list"
  APIVersionV1 :: string
  now :: nat
  loader_Load :: "string \<Rightarrow> error + ChartMetadata"
  DigestFile :: "string \<Rightarrow> error + string"
  chartURL :: "string \<Rightarrow> string \<Rightarrow> string"
  os_Stat :: "string \<Rightarrow> error + FileInfo"
  filepath_Walk :: "string \<Rightarrow> (string \<times> FileInfo option) list"
  os_IsNotExist :: "error \<Rightarrow> bool"
  IndexDirectory :: "string \<Rightarrow> string \<Rightarrow> error + IndexFile"
  IndexWriteFile_result :: "IndexFile \<Rightarrow> string \<Rightarrow> error option"

text \<open>A call either panics or returns.\<close>

datatype 'a exec = Panic | Done 'a

definition NewChartRepository :: "ext \<Rightarrow> Entry \<Rightarrow> Providers \<Rightarrow> error + ChartRepository" where
  "NewChartRepository x cfg getters =
     (case url_Parse (URL cfg) of
        Inl err \<Rightarrow> Inl (Errorf (''invalid chart URL format: '' @ URL cfg))
      | Inr u \<Rightarrow>
          (case getters (Scheme u) of
             Inl err \<Rightarrow> Inl (Errorf (''could not find protocol handler for: '' @ Scheme u))
           | Inr client \<Rightarrow>
               Inr \<lparr>Config = cfg, ChartPaths = [],
                    IndexFile = NewIndexFile (APIVersionV1 x) (now x),
                    Client = client, CachePath = helmpath_CachePath x ''repository''\<rparr>))"




text \<open>
  \<open>DownloadIndexFile\<close> returns nothing and the error, or the index with the error of
  the last write, or the index and the name of the file it wrote. The getter hands
  back a buffer in memory, so \<open>ioutil.ReadAll\<close> on it does not fail: the answer of
  the getter is the bytes read. The errors of \<open>os.MkdirAll\<close> and of the first
  \<open>ioutil.WriteFile\<close> are dropped by the code; the list of chart names is written in
  the order \<open>range\<close> visits the map.
\<close>

datatype download =
    DownloadFailed error
  | DownloadedNotSaved IndexFile string error
  | Downloaded IndexFile string

definition indexURL :: "URL \<Rightarrow> string" where
  "indexURL parsedURL =
     URL_String (parsedURL\<lparr>RawPath := path_Join [RawPath parsedURL, ''index.yaml''],
                           Path := path_Join [Path parsedURL, ''index.yaml'']\<rparr>)"

definition DownloadIndexFile :: "ext \<Rightarrow> world \<Rightarrow> ChartRepository \<Rightarrow> download \<times> world" where
  "DownloadIndexFile x w r =
     (case url_Parse (URL (Config r)) of
        Inl err \<Rightarrow> (DownloadFailed err, w)
      | Inr parsedURL \<Rightarrow>
          (let opts = \<lparr>opt_URL = URL (Config r),
                       opt_InsecureSkipVerifyTLS = InsecureSkipTLSverify (Config r),
                       opt_CertFile = CertFile (Config r), opt_KeyFile = KeyFile (Config r),
                       opt_CAFile = CAFile (Config r),
                       opt_Username = Username (Config r), opt_Password = Password (Config r)\<rparr>;
               w1 = w\<lparr>requests := requests w @ [(indexURL parsedURL, opts)]\<rparr>
           in case Client r (length (requests w)) (indexURL parsedURL) opts of
                Inl err \<Rightarrow> (DownloadFailed err, w1)
              | Inr index \<Rightarrow>
                  (case loadIndex x index of
                     Inl err \<Rightarrow> (DownloadFailed err, w1)
                   | Inr indexFile \<Rightarrow>
                       (let charts = concat (map (\<lambda>name. name @ [CHR 0x0A]) (rangeKeys x indexFile));
                            chartsFile = filepath_Join [CachePath r, CacheChartsFile x (Name (Config r))];
                            fname = filepath_Join [CachePath r, CacheIndexFile x (Name (Config r))];
                            w2 = w1\<lparr>disk := disk w1 @
                                   [MkdirAll (filepath_Dir chartsFile), WriteFile chartsFile charts,
                                    MkdirAll (filepath_Dir fname), WriteFile fname index]\<rparr>
                        in case WriteFile_result x fname index of
                             Some err \<Rightarrow> (DownloadedNotSaved indexFile fname err, w2)
                           | None \<Rightarrow> (Downloaded indexFile fname, w2)))))"

text \<open>
  \<open>generateIndex\<close>: the loop over \<open>r.ChartPaths\<close>. The index is changed in place, so
  what was added before an error stays added. The record handed to \<open>Add\<close> is the one
  the specification describes: the chart's name and version, the digest, and the
  download URL resolved from the repository's base URL and the path.
\<close>

fun generateIndex_loop :: "ext \<Rightarrow> ChartRepository \<Rightarrow> string list \<Rightarrow> error option \<times> ChartRepository" where
  "generateIndex_loop x r [] = (None, r)"
| "generateIndex_loop x r (path # paths) =
     (case loader_Load x path of
        Inl err \<Rightarrow> (Some err, r)
      | Inr ch \<Rightarrow>
          (case DigestFile x path of
             Inl err \<Rightarrow> (Some err, r)
           | Inr digest \<Rightarrow>
               (if \<not> Has (IndexFile r) (md_Name ch) (md_Version ch) then
                  generateIndex_loop x
                    (r\<lparr>IndexFile := Add (IndexFile r)
                          \<lparr>cv_Name = md_Name ch, cv_Version = md_Version ch, Digest = digest,
                           URLs = [chartURL x (URL (Config r)) path], Created = now x\<rparr>\<rparr>)
                    paths
                else generateIndex_loop x r paths)))"


text \<open>\<open>ResolveReferenceURL\<close>: the base path gets exactly one trailing slash.\<close>

definition ResolveReferenceURL :: "string \<Rightarrow> string \<Rightarrow> error + string" where
  "ResolveReferenceURL baseURL refURL =
     (case url_Parse baseURL of
        Inl err \<Rightarrow> Inl (Wrap err (''failed to parse '' @ baseURL @ '' as URL''))
      | Inr parsedBaseURL \<Rightarrow>
          (case url_Parse refURL of
             Inl err \<Rightarrow> Inl (Wrap err (''failed to parse '' @ refURL @ '' as URL''))
           | Inr parsedRefURL \<Rightarrow>
               Inr (URL_String (ResolveReference
                      (parsedBaseURL\<lparr>Path := TrimSuffix (Path parsedBaseURL) ''/'' @ ''/''\<rparr>)
                      parsedRefURL))))"

definition GetAndCacheIndexFile ::
  "ext \<Rightarrow> world \<Rightarrow> string \<Rightarrow> string \<Rightarrow> string \<Rightarrow> string \<Rightarrow> string \<Rightarrow> string \<Rightarrow> Providers
     \<Rightarrow> (error + IndexFile) \<times> world" where
  "GetAndCacheIndexFile x w repoURL username' password' certFile keyFile caFile getters =
     (let name = ReplaceAllByte (randomBase64 x (randCalls w)) (CHR ''/'') (CHR ''-'');
          w0 = w\<lparr>randCalls := Suc (randCalls w)\<rparr>;
          c = \<lparr>Name = name, URL = repoURL, Username = username', Password = password',
               CertFile = certFile, KeyFile = keyFile, CAFile = caFile,
               InsecureSkipTLSverify = False\<rparr>
      in case NewChartRepository x c getters of
           Inl err \<Rightarrow> (Inl err, w0)
         | Inr r \<Rightarrow>
             (case DownloadIndexFile x w0 r of
                (DownloadFailed err, w1) \<Rightarrow>
                  (Inl (Wrap err (''looks like '' @ Quote x repoURL
                          @ '' is not a valid chart repository or cannot be reached'')), w1)
              | (DownloadedNotSaved repoIndex fname err, w1) \<Rightarrow>
                  (Inl (Wrap err (''looks like '' @ Quote x repoURL
                          @ '' is not a valid chart repository or cannot be reached'')), w1)
              | (Downloaded repoIndex fname, w1) \<Rightarrow>
                  (Inr repoIndex,
                   w1\<lparr>IndexFileCache := (IndexFileCache w1)(repoURL \<mapsto> IndexValue repoIndex)\<rparr>)))"

text \<open>
  \<open>FindChartInAuthRepoURL\<close>. The mutex makes the calls of one process run one after
  the other; a call is a function from the world before it to its result and the
  world after it. \<open>errMsg\<close> is the text both error messages start with, and
  \<open>chartLocation\<close> is the end of the function, from \<open>len(cv.URLs) == 0\<close> on.
\<close>

definition errMsg :: "ext \<Rightarrow> string \<Rightarrow> string \<Rightarrow> string" where
  "errMsg x chartName chartVersion =
     (if chartVersion \<noteq> [] then ''chart '' @ Quote x chartName @ '' version '' @ Quote x chartVersion
      else ''chart '' @ Quote x chartName)"

definition chartLocation :: "ext \<Rightarrow> string \<Rightarrow> string \<Rightarrow> string \<Rightarrow> ChartVersion \<Rightarrow> error + string" where
  "chartLocation x repoURL chartName chartVersion cv =
     (if length (URLs cv) = 0 then
        Inl (Errorf (errMsg x chartName chartVersion @ '' has no downloadable URLs''))
      else
        (case ResolveReferenceURL repoURL (URLs cv ! 0) of
           Inl err \<Rightarrow> Inl (Wrap err ''failed to make chart URL absolute'')
         | Inr absoluteChartURL \<Rightarrow> Inr absoluteChartURL))"

definition findChart ::
  "ext \<Rightarrow> world \<Rightarrow> IndexFile \<Rightarrow> string \<Rightarrow> string \<Rightarrow> string \<Rightarrow> string \<Rightarrow> string \<Rightarrow> string
     \<Rightarrow> string \<Rightarrow> string \<Rightarrow> Providers \<Rightarrow> (error + string) \<times> world" where
  "findChart x w repoIndex repoURL username' password' chartName chartVersion certFile keyFile caFile getters =
     (let w0 = w\<lparr>lookups := lookups w @ [(chartName, chartVersion)]\<rparr>
      in case IndexFile_Get x repoIndex chartName chartVersion of
           Inr cv \<Rightarrow> (chartLocation x repoURL chartName chartVersion cv, w0)
         | Inl err \<Rightarrow>
             (case GetAndCacheIndexFile x (w0\<lparr>IndexFileCache := (IndexFileCache w0)(repoURL := None)\<rparr>)
                     repoURL username' password' certFile keyFile caFile getters of
                (Inl err, w1) \<Rightarrow> (Inl err, w1)
              | (Inr repoIndex', w1) \<Rightarrow>
                  (let w2 = w1\<lparr>lookups := lookups w1 @ [(chartName, chartVersion)]\<rparr>
                   in case IndexFile_Get x repoIndex' chartName chartVersion of
                        Inl err \<Rightarrow>
                          (Inl (Errorf (errMsg x chartName chartVersion @ '' not found in '' @ repoURL
                                  @ '' repository'')), w2)
                      | Inr cv \<Rightarrow>
                          (chartLocation x repoURL chartName chartVersion cv,
                           w2\<lparr>IndexFileCache := (IndexFileCache w2)(repoURL \<mapsto> CacheValue)\<rparr>))))"

definition FindChartInAuthRepoURL ::
  "ext \<Rightarrow> world \<Rightarrow> string \<Rightarrow> string \<Rightarrow> string \<Rightarrow> string \<Rightarrow> string \<Rightarrow> string \<Rightarrow> string
     \<Rightarrow> string \<Rightarrow> Providers \<Rightarrow> (error + string) exec \<times> world" where
  "FindChartInAuthRepoURL x w repoURL username' password' chartName chartVersion certFile keyFile caFile getters =
     (case IndexFileCache w repoURL of
        None \<Rightarrow>
          (case GetAndCacheIndexFile x w repoURL username' password' certFile keyFile caFile getters of
             (Inl err, w1) \<Rightarrow> (Done (Inl err), w1)
           | (Inr repoIndex, w1) \<Rightarrow>
               (case findChart x w1 repoIndex repoURL username' password' chartName chartVersion
                       certFile keyFile caFile getters of
                  (res, w2) \<Rightarrow> (Done res, w2)))
      | Some (IndexValue repoIndex) \<Rightarrow>
          (case findChart x w repoIndex repoURL username' password' chartName chartVersion
                  certFile keyFile caFile getters of
             (res, w2) \<Rightarrow> (Done res, w2))
      | Some CacheValue \<Rightarrow> (Panic, w))"

definition FindChartInRepoURL ::
  "ext \<Rightarrow> world \<Rightarrow> string \<Rightarrow> string \<Rightarrow> string \<Rightarrow> string \<Rightarrow> string \<Rightarrow> string
     \<Rightarrow> Providers \<Rightarrow> (error + string) exec \<times> world" where
  "FindChartInRepoURL x w repoURL chartName chartVersion certFile keyFile caFile getters =
     FindChartInAuthRepoURL x w repoURL [] [] chartName chartVersion certFile keyFile caFile getters"

section \<open>The command helm repo index (repo_index.go)\<close>

text \<open>\<open>index\<close> returns its error and the file operations it performed, in order.\<close>

definition index ::
  "(string \<Rightarrow> 'v::linorder option) \<Rightarrow> ext \<Rightarrow> string \<Rightarrow> string \<Rightarrow> string \<Rightarrow> error option \<times> fs_op list" where
  "index semver x dir url mergeTo =
     (let out = filepath_Join [dir, ''index.yaml'']
      in case IndexDirectory x dir url of
           Inl err \<Rightarrow> (Some err, [])
         | Inr i \<Rightarrow>
             if mergeTo \<noteq> [] then
               (case os_Stat x mergeTo of
                  Inl err \<Rightarrow>
                    if os_IsNotExist x err then
                      (let i2 = NewIndexFile (APIVersionV1 x) (now x);
                           merged = SortEntries semver (Merge i i2)
                       in (IndexWriteFile_result x merged out,
                           [WriteIndexFile mergeTo i2, WriteIndexFile out merged]))
                    else
                      (case LoadIndexFile x mergeTo of
                         Inl err' \<Rightarrow> (Some (Wrap err' ''merge failed''), [])
                       | Inr i2 \<Rightarrow>
                           (let merged = SortEntries semver (Merge i i2)
                            in (IndexWriteFile_result x merged out, [WriteIndexFile out merged])))
                | Inr info \<Rightarrow>
                    (case LoadIndexFile x mergeTo of
                       Inl err' \<Rightarrow> (Some (Wrap err' ''merge failed''), [])
                     | Inr i2 \<Rightarrow>
                         (let merged = SortEntries semver (Merge i i2)
                          in (IndexWriteFile_result x merged out, [WriteIndexFile out merged]))))
             else
               (let sorted' = SortEntries semver i
                in (IndexWriteFile_result x sorted' out, [WriteIndexFile out sorted'])))"

section \<open>Reading an index\<close>

text \<open>
  \<open>entriesOf i name\<close> is Go's \<open>i.Entries[name]\<close>: the empty sequence for a package
  the index does not have. \<open>descending\<close> is the order \<open>SortEntries\<close> establishes.
\<close>

definition entriesOf :: "IndexFile \<Rightarrow> string \<Rightarrow> ChartVersion list" where
  "entriesOf i name = (case Entries i name of None \<Rightarrow> [] | Some cvs \<Rightarrow> cvs)"

definition descending :: "(string \<Rightarrow> 'v::linorder option) \<Rightarrow> ChartVersion list \<Rightarrow> bool" where
  "descending semver cvs = sorted_wrt (\<lambda>a b. \<not> before semver (cv_Version b) (cv_Version a)) cvs"


section \<open>A small repository for the examples\<close>

text \<open>
  The examples run the code on one concrete world: a version parser that knows three
  versions, an index with one recorded chart, a newer index served by the remote
  repository, a \<open>Get\<close> that matches the version string exactly, and a getter that
  answers only with credentials.
\<close>

definition demo_semver :: "string \<Rightarrow> nat option" where
  "demo_semver = map_of [(''1.2.0'', 120), (''1.2.5'', 125), (''1.3.0'', 130)]"

definition demo_record :: "string \<Rightarrow> string \<Rightarrow> string \<Rightarrow> ChartVersion" where
  "demo_record name version digest =
     \<lparr>cv_Name = name, cv_Version = version, Digest = digest,
      URLs = [name @ ''-'' @ version @ ''.tgz''], Created = 0\<rparr>"

definition demo_old :: IndexFile where
  "demo_old = \<lparr>APIVersion = ''v1'', Generated = 0,
     Entries = [''foo'' \<mapsto> [demo_record ''foo'' ''1.2.0'' ''sha256:recorded'']]\<rparr>"

definition demo_new :: IndexFile where
  "demo_new = \<lparr>APIVersion = ''v1'', Generated = 1,
     Entries = [''foo'' \<mapsto> [demo_record ''foo'' ''1.3.0'' ''sha256:remote130'',
                            demo_record ''foo'' ''1.2.0'' ''sha256:remote120''],
                ''bar'' \<mapsto> [demo_record ''bar'' ''1.2.5'' ''sha256:bar'']]\<rparr>"

definition demo_Get :: "IndexFile \<Rightarrow> string \<Rightarrow> string \<Rightarrow> error + ChartVersion" where
  "demo_Get i name version =
     (case Entries i name of
        None \<Rightarrow> Inl (Errorf ''no chart name found'')
      | Some cvs \<Rightarrow>
          (case find (\<lambda>cv. cv_Version cv = version) cvs of
             None \<Rightarrow> Inl (Errorf ''no chart version found'')
           | Some cv \<Rightarrow> Inr cv))"

definition demo_ext :: ext where
  "demo_ext =
     \<lparr>Quote = (\<lambda>s. CHR 0x22 # s @ [CHR 0x22]),
      loadIndex = (\<lambda>bytes. if bytes = ''old'' then Inr demo_old
                           else if bytes = ''new'' then Inr demo_new
                           else Inl (Errorf ''error unmarshaling'')),
      LoadIndexFile = (\<lambda>p. if p = ''charts/index.yaml'' \<or> p = ''charts/stable-index.yaml''
                              \<or> p = ''merged.yaml''
                            then Inr demo_new else Inl (Errorf ''no such file'')),
      IndexFile_Get = demo_Get,
      WriteFile_result = (\<lambda>p data. None),
      helmpath_CachePath = (\<lambda>d. ''/cache/'' @ d),
      CacheChartsFile = (\<lambda>n. n @ ''-charts.txt''),
      CacheIndexFile = (\<lambda>n. n @ ''-index.yaml''),
      randomBase64 = (\<lambda>n. ''q/Zk'' @ replicate n (CHR ''A'')),
      rangeKeys = (\<lambda>i. filter (\<lambda>k. Entries i k \<noteq> None) [''bar'', ''foo'']),
      APIVersionV1 = ''v1'',
      now = 7,
      loader_Load = (\<lambda>p. if p = ''charts/foo-1.2.0.tgz'' then Inr \<lparr>md_Name = ''foo'', md_Version = ''1.2.0''\<rparr>
                          else if p = ''charts/foo-1.3.0.tgz'' then Inr \<lparr>md_Name = ''foo'', md_Version = ''1.3.0''\<rparr>
                          else Inl (Errorf ''not a chart'')),
      DigestFile = (\<lambda>p. Inr (''sha256:'' @ p)),
      chartURL = (\<lambda>base p. base @ ''/'' @ p),
      os_Stat = (\<lambda>p. if p = ''charts'' then Inr \<lparr>f_Name = ''charts'', f_IsDir = True\<rparr>
                      else if p = ''merged.yaml'' then Inr \<lparr>f_Name = ''merged.yaml'', f_IsDir = False\<rparr>
                      else Inl (Errorf ''no such file or directory'')),
      filepath_Walk = (\<lambda>root. [(''charts'', Some \<lparr>f_Name = ''charts'', f_IsDir = True\<rparr>),
                               (''charts/foo-1.3.0.tgz'', Some \<lparr>f_Name = ''foo-1.3.0.tgz'', f_IsDir = False\<rparr>),
                               (''charts/index.yaml'', Some \<lparr>f_Name = ''index.yaml'', f_IsDir = False\<rparr>)]),
      os_IsNotExist = (\<lambda>err. err = Errorf ''no such file or directory''),
      IndexDirectory = (\<lambda>dir url. if dir = ''charts'' then Inr demo_old
                                  else Inl (Errorf ''no such directory'')),
      IndexWriteFile_result = (\<lambda>i p. None)\<rparr>"

definition demo_getter :: Getter where
  "demo_getter n url opts = (if opt_Username opts = ''admin'' then Inr ''new'' else Inl (Errorf ''401 Unauthorized''))"

definition demo_getters :: Providers where
  "demo_getters scheme = (if scheme = ''https'' then Inr demo_getter else Inl (Errorf ''scheme not supported''))"



definition demo_url :: string where
  "demo_url = ''https://repo.example/charts''"

text \<open>
  Two worlds: one whose cache holds the old index for the repository, and one whose
  cache is empty. \<open>demo_opts\<close> and \<open>demo_disk\<close> are the options and the file
  operations of one download.
\<close>

definition demo_stale :: world where
  "demo_stale = \<lparr>IndexFileCache = [demo_url \<mapsto> IndexValue demo_old],
                  requests = [], disk = [], randCalls = 0, lookups = []\<rparr>"

definition demo_empty :: world where
  "demo_empty = \<lparr>IndexFileCache = Map.empty, requests = [], disk = [], randCalls = 0, lookups = []\<rparr>"

definition demo_opts :: "string \<Rightarrow> string \<Rightarrow> GetOptions" where
  "demo_opts u p = \<lparr>opt_URL = demo_url, opt_InsecureSkipVerifyTLS = False, opt_CertFile = [],
                opt_KeyFile = [], opt_CAFile = [], opt_Username = u, opt_Password = p\<rparr>"

definition demo_disk :: "nat \<Rightarrow> fs_op list" where
  "demo_disk n =
     [MkdirAll (filepath_Dir (filepath_Join [''/cache/repository'',
         ReplaceAllByte (''q/Zk'' @ replicate n (CHR ''A'')) (CHR ''/'') (CHR ''-'') @ ''-charts.txt''])),
      WriteFile (filepath_Join [''/cache/repository'',
         ReplaceAllByte (''q/Zk'' @ replicate n (CHR ''A'')) (CHR ''/'') (CHR ''-'') @ ''-charts.txt''])
        (concat (map (\<lambda>name. name @ [CHR 0x0A]) [''bar'', ''foo''])),
      MkdirAll (filepath_Dir (filepath_Join [''/cache/repository'',
         ReplaceAllByte (''q/Zk'' @ replicate n (CHR ''A'')) (CHR ''/'') (CHR ''-'') @ ''-index.yaml''])),
      WriteFile (filepath_Join [''/cache/repository'',
         ReplaceAllByte (''q/Zk'' @ replicate n (CHR ''A'')) (CHR ''/'') (CHR ''-'') @ ''-index.yaml''])
        ''new'']"

text \<open>
  \<open>missing x p\<close> is the test \<open>index\<close> makes on its merge target: \<open>os.Stat\<close> fails
  and \<open>os.IsNotExist\<close> accepts the error.
\<close>

definition missing :: "ext \<Rightarrow> string \<Rightarrow> bool" where
  "missing x p = (case os_Stat x p of Inl err \<Rightarrow> os_IsNotExist x err | Inr info \<Rightarrow> False)"

section \<open>Sorting, merging and adding\<close>

lemma before_asym: "before sv a b \<Longrightarrow> \<not> before sv b a"
  by (auto simp: before_def split: option.splits)

lemma before_negtrans: "before sv y c \<Longrightarrow> \<not> before sv y x \<Longrightarrow> before sv x c"
  by (auto simp: before_def split: option.splits)

lemma set_insert_version: "set (insert_version sv cv xs) = insert cv (set xs)"
  by (induction xs) auto


lemma length_insert_version: "length (insert_version sv cv xs) = Suc (length xs)"
  by (induction xs) auto

lemma length_sort_versions: "length (sort_versions sv xs) = length xs"
  by (induction xs) (auto simp: sort_versions_def length_insert_version)

lemma descending_insert_version:
  "descending sv xs \<Longrightarrow> descending sv (insert_version sv cv xs)"
proof (induction xs)
  case Nil
  then show ?case by (simp add: descending_def)
next
  case (Cons x xs)
  show ?case
  proof (cases "before sv (cv_Version x) (cv_Version cv)")
    case True
    with Cons show ?thesis
      by (auto simp: descending_def set_insert_version dest: before_asym)
  next
    case False
    with Cons.prems show ?thesis
      by (auto simp: descending_def dest: before_negtrans)
  qed
qed

lemma descending_sort_versions: "descending sv (sort_versions sv xs)"
proof (induction xs)
  case Nil
  show ?case by (simp add: sort_versions_def descending_def)
next
  case (Cons x xs)
  then show ?case
    using descending_insert_version [of sv "sort_versions sv xs" x]
    by (simp add: sort_versions_def)
qed

lemma insert_version_id: "descending sv (cv # xs) \<Longrightarrow> insert_version sv cv xs = cv # xs"
  by (cases xs) (auto simp: descending_def)

lemma sort_versions_id: "descending sv xs \<Longrightarrow> sort_versions sv xs = xs"
proof (induction xs)
  case Nil
  show ?case by (simp add: sort_versions_def)
next
  case (Cons x xs)
  then have "sort_versions sv xs = xs" by (simp add: descending_def)
  with Cons.prems show ?case
    using insert_version_id [of sv x xs] by (simp add: sort_versions_def)
qed

lemma entriesOf_SortEntries: "entriesOf (SortEntries sv i) n = sort_versions sv (entriesOf i n)"
  by (simp add: entriesOf_def SortEntries_def sort_versions_def split: option.splits)


lemma entriesOf_Merge:
  "entriesOf (Merge i other) n =
     entriesOf i n @ filter (\<lambda>cv. \<not> Has i n (cv_Version cv)) (entriesOf other n)"
  by (auto simp: entriesOf_def Merge_def Has_def split: option.splits)

lemma Merge_keeps_collisions:
  "Has i n v \<Longrightarrow>
   filter (\<lambda>cv. cv_Version cv = v) (entriesOf (Merge i other) n) =
   filter (\<lambda>cv. cv_Version cv = v) (entriesOf i n)"
  by (auto simp: entriesOf_Merge filter_empty_conv)


lemma filter_insert_version:
  "filter (\<lambda>c. cv_Version c = v) (insert_version sv cv xs) =
   filter (\<lambda>c. cv_Version c = v) (cv # xs)"
proof (induction xs)
  case Nil
  show ?case by simp
next
  case (Cons x xs)
  have irrefl: "\<not> before sv a a" for a
    by (auto simp: before_def split: option.splits)
  show ?case
  proof (cases "before sv (cv_Version x) (cv_Version cv)")
    case True
    then have "cv_Version x \<noteq> cv_Version cv" using irrefl by auto
    with True Cons show ?thesis by auto
  next
    case False
    then show ?thesis by simp
  qed
qed

lemma filter_sort_versions:
  "filter (\<lambda>c. cv_Version c = v) (sort_versions sv xs) = filter (\<lambda>c. cv_Version c = v) xs"
proof (induction xs)
  case Nil
  show ?case by (simp add: sort_versions_def)
next
  case (Cons x xs)
  have "filter (\<lambda>c. cv_Version c = v) (sort_versions sv (x # xs)) =
        filter (\<lambda>c. cv_Version c = v) (x # sort_versions sv xs)"
    using filter_insert_version [of v sv x "sort_versions sv xs"]
    by (simp add: sort_versions_def)
  with Cons show ?case by simp
qed




lemma loop_skips_known:
  "loader_Load x p = Inr ch \<Longrightarrow> DigestFile x p = Inr d \<Longrightarrow>
   Has (IndexFile r) (md_Name ch) (md_Version ch) \<Longrightarrow>
   generateIndex_loop x r (p # ps) = generateIndex_loop x r ps"
  by simp

lemma entriesOf_NewIndexFile: "entriesOf (NewIndexFile tag t) n = []"
  by (simp add: entriesOf_def NewIndexFile_def)

lemma entriesOf_Merge_new: "entriesOf (Merge i (NewIndexFile tag t)) n = entriesOf i n"
  by (simp add: entriesOf_Merge entriesOf_NewIndexFile)

lemma merged_keeps_local:
  "Has i n v \<Longrightarrow>
   filter (\<lambda>c. cv_Version c = v) (entriesOf (SortEntries sv (Merge i i2)) n) =
   filter (\<lambda>c. cv_Version c = v) (entriesOf i n)"
  by (simp add: entriesOf_SortEntries filter_sort_versions Merge_keeps_collisions)


section \<open>generateIndex\<close>









section \<open>The index command\<close>

lemma index_missing:
  "IndexDirectory x dir url = Inr i \<Longrightarrow> mergeTo \<noteq> [] \<Longrightarrow> missing x mergeTo \<Longrightarrow>
   index sv x dir url mergeTo =
     (IndexWriteFile_result x (SortEntries sv (Merge i (NewIndexFile (APIVersionV1 x) (now x))))
        (filepath_Join [dir, ''index.yaml'']),
      [WriteIndexFile mergeTo (NewIndexFile (APIVersionV1 x) (now x)),
       WriteIndexFile (filepath_Join [dir, ''index.yaml''])
         (SortEntries sv (Merge i (NewIndexFile (APIVersionV1 x) (now x))))])"
  by (auto simp: index_def missing_def Let_def split: sum.splits)

lemma index_load_fails:
  "IndexDirectory x dir url = Inr i \<Longrightarrow> mergeTo \<noteq> [] \<Longrightarrow> \<not> missing x mergeTo \<Longrightarrow>
   LoadIndexFile x mergeTo = Inl e \<Longrightarrow>
   index sv x dir url mergeTo = (Some (Wrap e ''merge failed''), [])"
  by (auto simp: index_def missing_def Let_def split: sum.splits)

lemma index_merges:
  "IndexDirectory x dir url = Inr i \<Longrightarrow> mergeTo \<noteq> [] \<Longrightarrow> \<not> missing x mergeTo \<Longrightarrow>
   LoadIndexFile x mergeTo = Inr i2 \<Longrightarrow>
   index sv x dir url mergeTo =
     (IndexWriteFile_result x (SortEntries sv (Merge i i2)) (filepath_Join [dir, ''index.yaml'']),
      [WriteIndexFile (filepath_Join [dir, ''index.yaml'']) (SortEntries sv (Merge i i2))])"
  by (auto simp: index_def missing_def Let_def split: sum.splits)

lemma index_generation_fails:
  "IndexDirectory x dir url = Inl e \<Longrightarrow> index sv x dir url mergeTo = (Some e, [])"
  by (simp add: index_def Let_def)

text \<open>
  Claim C4, as amended. \<open>index dir url mergeTo\<close> with a non-empty merge target: when
  \<open>IndexDirectory\<close> fails, its error is returned and no file is touched. When it gives
  the generated index \<open>i\<close>: if the target is missing, \<open>NewIndexFile\<close> (an index without
  entries) is written to the target and merged, which leaves the entries of \<open>i\<close> as
  they are; otherwise the target is loaded, and a load failure ends the call with
  "merge failed" and no write. The merge has \<open>i\<close> as its receiver, so for every name
  and version \<open>i\<close> has, the records with that version in the result are those of \<open>i\<close>,
  unchanged. The result is sorted (every sequence descending) and written to
  \<open>dir/index.yaml\<close>; the error of that write is the result of the call.
\<close>

theorem index_merge:
  "mergeTo \<noteq> [] \<longrightarrow>
     (\<forall>e. IndexDirectory x dir url = Inl e \<longrightarrow> index sv x dir url mergeTo = (Some e, []))
   \<and> (\<forall>i. IndexDirectory x dir url = Inr i \<longrightarrow>
        (missing x mergeTo \<longrightarrow>
           index sv x dir url mergeTo =
             (IndexWriteFile_result x (SortEntries sv (Merge i (NewIndexFile (APIVersionV1 x) (now x))))
                (filepath_Join [dir, ''index.yaml'']),
              [WriteIndexFile mergeTo (NewIndexFile (APIVersionV1 x) (now x)),
               WriteIndexFile (filepath_Join [dir, ''index.yaml''])
                 (SortEntries sv (Merge i (NewIndexFile (APIVersionV1 x) (now x))))])
           \<and> (\<forall>n. entriesOf (NewIndexFile (APIVersionV1 x) (now x)) n = []
                  \<and> entriesOf (Merge i (NewIndexFile (APIVersionV1 x) (now x))) n = entriesOf i n))
      \<and> (\<not> missing x mergeTo \<longrightarrow>
           (\<forall>e. LoadIndexFile x mergeTo = Inl e \<longrightarrow>
              index sv x dir url mergeTo = (Some (Wrap e ''merge failed''), []))
         \<and> (\<forall>i2. LoadIndexFile x mergeTo = Inr i2 \<longrightarrow>
              index sv x dir url mergeTo =
                (IndexWriteFile_result x (SortEntries sv (Merge i i2)) (filepath_Join [dir, ''index.yaml'']),
                 [WriteIndexFile (filepath_Join [dir, ''index.yaml'']) (SortEntries sv (Merge i i2))])))
      \<and> (\<forall>i2 n v. Has i n v \<longrightarrow>
             filter (\<lambda>c. cv_Version c = v) (entriesOf (SortEntries sv (Merge i i2)) n) =
             filter (\<lambda>c. cv_Version c = v) (entriesOf i n))
      \<and> (\<forall>i2 n. descending sv (entriesOf (SortEntries sv (Merge i i2)) n)))"
proof (intro impI conjI allI)
  fix e
  assume "IndexDirectory x dir url = Inl e"
  then show "index sv x dir url mergeTo = (Some e, [])"
    by (rule index_generation_fails)
next
  fix i
  assume "mergeTo \<noteq> []" "IndexDirectory x dir url = Inr i" "missing x mergeTo"
  then show "index sv x dir url mergeTo =
             (IndexWriteFile_result x (SortEntries sv (Merge i (NewIndexFile (APIVersionV1 x) (now x))))
                (filepath_Join [dir, ''index.yaml'']),
              [WriteIndexFile mergeTo (NewIndexFile (APIVersionV1 x) (now x)),
               WriteIndexFile (filepath_Join [dir, ''index.yaml''])
                 (SortEntries sv (Merge i (NewIndexFile (APIVersionV1 x) (now x))))])"
    using index_missing by blast
next
  fix n
  show "entriesOf (NewIndexFile (APIVersionV1 x) (now x)) n = []"
    by (rule entriesOf_NewIndexFile)
next
  fix i n
  show "entriesOf (Merge i (NewIndexFile (APIVersionV1 x) (now x))) n = entriesOf i n"
    by (rule entriesOf_Merge_new)
next
  fix i e
  assume "mergeTo \<noteq> []" "IndexDirectory x dir url = Inr i" "\<not> missing x mergeTo"
    "LoadIndexFile x mergeTo = Inl e"
  then show "index sv x dir url mergeTo = (Some (Wrap e ''merge failed''), [])"
    using index_load_fails by blast
next
  fix i i2
  assume "mergeTo \<noteq> []" "IndexDirectory x dir url = Inr i" "\<not> missing x mergeTo"
    "LoadIndexFile x mergeTo = Inr i2"
  then show "index sv x dir url mergeTo =
             (IndexWriteFile_result x (SortEntries sv (Merge i i2)) (filepath_Join [dir, ''index.yaml'']),
              [WriteIndexFile (filepath_Join [dir, ''index.yaml'']) (SortEntries sv (Merge i i2))])"
    using index_merges by blast
next
  fix i i2 n v
  assume "Has i n v"
  then show "filter (\<lambda>c. cv_Version c = v) (entriesOf (SortEntries sv (Merge i i2)) n) =
          filter (\<lambda>c. cv_Version c = v) (entriesOf i n)"
    by (rule merged_keeps_local)
next
  fix i i2 n
  show "descending sv (entriesOf (SortEntries sv (Merge i i2)) n)"
    by (simp add: entriesOf_SortEntries descending_sort_versions)
qed

lemma demo_dir: "filepath_Join [''charts'', ''index.yaml''] = ''charts/index.yaml''"
  by code_simp

text \<open>
  Claim C4 as stated fails: an existing, loadable merge target and a directory for
  which \<open>IndexDirectory\<close> fails. The call returns that error; the target is not
  loaded, nothing is merged, sorted or written.
\<close>

theorem index_generation_fails_counterexample:
  "''merged.yaml'' \<noteq> []
   \<and> \<not> missing demo_ext ''merged.yaml''
   \<and> LoadIndexFile demo_ext ''merged.yaml'' = Inr demo_new
   \<and> IndexDirectory demo_ext ''nowhere'' [] = Inl (Errorf ''no such directory'')
   \<and> index demo_semver demo_ext ''nowhere'' [] ''merged.yaml'' = (Some (Errorf ''no such directory''), [])"
  by (simp add: index_def Let_def missing_def demo_ext_def)

text \<open>
  The theorem of C4 at concrete inputs: a target that exists and holds other digests
  for \<open>foo 1.2.0\<close> (the generated record survives, \<open>foo 1.3.0\<close> and \<open>bar\<close> come from
  the target, the result is sorted), a target that is missing (an empty index is
  written there first), and a directory that cannot be indexed.
\<close>

theorem index_merge_witness:
  "IndexDirectory demo_ext ''charts'' [] = Inr demo_old
   \<and> ''merged.yaml'' \<noteq> []
   \<and> \<not> missing demo_ext ''merged.yaml''
   \<and> LoadIndexFile demo_ext ''merged.yaml'' = Inr demo_new
   \<and> Has demo_old ''foo'' ''1.2.0''
   \<and> index demo_semver demo_ext ''charts'' [] ''merged.yaml'' =
        (None, [WriteIndexFile ''charts/index.yaml'' (SortEntries demo_semver (Merge demo_old demo_new))])
   \<and> filter (\<lambda>c. cv_Version c = ''1.2.0'')
        (entriesOf (SortEntries demo_semver (Merge demo_old demo_new)) ''foo'')
      = [demo_record ''foo'' ''1.2.0'' ''sha256:recorded'']
   \<and> map cv_Version (entriesOf (SortEntries demo_semver (Merge demo_old demo_new)) ''foo'')
      = [''1.3.0'', ''1.2.0'']
   \<and> map cv_Version (entriesOf (SortEntries demo_semver (Merge demo_old demo_new)) ''bar'')
      = [''1.2.5'']
   \<and> missing demo_ext ''absent.yaml''
   \<and> index demo_semver demo_ext ''charts'' [] ''absent.yaml'' =
        (None, [WriteIndexFile ''absent.yaml'' (NewIndexFile ''v1'' 7),
                WriteIndexFile ''charts/index.yaml''
                  (SortEntries demo_semver (Merge demo_old (NewIndexFile ''v1'' 7)))])
   \<and> IndexDirectory demo_ext ''nowhere'' [] = Inl (Errorf ''no such directory'')
   \<and> index demo_semver demo_ext ''nowhere'' [] ''absent.yaml'' = (Some (Errorf ''no such directory''), [])"
proof -
  have dir: "IndexDirectory demo_ext ''charts'' [] = Inr demo_old"
    by (simp add: demo_ext_def)
  have nodir: "IndexDirectory demo_ext ''nowhere'' [] = Inl (Errorf ''no such directory'')"
    by (simp add: demo_ext_def)
  have there: "\<not> missing demo_ext ''merged.yaml''"
    by (simp add: missing_def demo_ext_def)
  have absent: "missing demo_ext ''absent.yaml''"
    by (simp add: missing_def demo_ext_def)
  have load: "LoadIndexFile demo_ext ''merged.yaml'' = Inr demo_new"
    by (simp add: demo_ext_def)
  have has: "Has demo_old ''foo'' ''1.2.0''"
    by (simp add: demo_old_def Has_def demo_record_def)
  have wr: "IndexWriteFile_result demo_ext idx p = None" for idx p
    by (simp add: demo_ext_def)
  have tag: "APIVersionV1 demo_ext = ''v1''" "now demo_ext = 7"
    by (simp_all add: demo_ext_def)
  have local: "filter (\<lambda>c. cv_Version c = ''1.2.0'') (entriesOf demo_old ''foo'')
      = [demo_record ''foo'' ''1.2.0'' ''sha256:recorded'']"
    by (simp add: demo_old_def entriesOf_def demo_record_def)
  have order: "map cv_Version (entriesOf (SortEntries demo_semver (Merge demo_old demo_new)) ''foo'')
      = [''1.3.0'', ''1.2.0'']"
    by (simp add: SortEntries_def Merge_def demo_old_def demo_new_def
          demo_record_def entriesOf_def sort_versions_def before_def demo_semver_def)
  have other: "map cv_Version (entriesOf (SortEntries demo_semver (Merge demo_old demo_new)) ''bar'')
      = [''1.2.5'']"
    by (simp add: SortEntries_def Merge_def demo_old_def demo_new_def
          demo_record_def entriesOf_def sort_versions_def before_def demo_semver_def)
  have name1: "''merged.yaml'' \<noteq> []" and name2: "''absent.yaml'' \<noteq> []"
    by simp_all
  note merged = index_merge [of "''merged.yaml''" demo_ext "''charts''" "[]" demo_semver,
      rule_format, OF name1, THEN conjunct2, rule_format, OF dir]
  note created = index_merge [of "''absent.yaml''" demo_ext "''charts''" "[]" demo_semver,
      rule_format, OF name2, THEN conjunct2, rule_format, OF dir]
  note failed = index_merge [of "''absent.yaml''" demo_ext "''nowhere''" "[]" demo_semver,
      rule_format, OF name2, THEN conjunct1, rule_format, OF nodir]
  have run1: "index demo_semver demo_ext ''charts'' [] ''merged.yaml'' =
        (None, [WriteIndexFile ''charts/index.yaml'' (SortEntries demo_semver (Merge demo_old demo_new))])"
    using merged there load by (simp add: wr demo_dir)
  have keep: "filter (\<lambda>c. cv_Version c = ''1.2.0'')
        (entriesOf (SortEntries demo_semver (Merge demo_old demo_new)) ''foo'')
      = [demo_record ''foo'' ''1.2.0'' ''sha256:recorded'']"
    using merged has local by simp
  have run2: "index demo_semver demo_ext ''charts'' [] ''absent.yaml'' =
        (None, [WriteIndexFile ''absent.yaml'' (NewIndexFile ''v1'' 7),
                WriteIndexFile ''charts/index.yaml''
                  (SortEntries demo_semver (Merge demo_old (NewIndexFile ''v1'' 7)))])"
    using created absent by (simp add: wr demo_dir tag)
  from dir there load has run1 keep order other absent run2 nodir failed show ?thesis
    by simp
qed

section \<open>The name of the index file\<close>
















lemma demo_parse: "url_Parse demo_url =
   Inr \<lparr>Scheme = ''https'', Opaque = [], User = None, Host = ''repo.example'',
        Path = ''/charts'', RawPath = [], ForceQuery = False, RawQuery = [],
        Fragment = [], RawFragment = []\<rparr>"
  unfolding demo_url_def by code_simp

lemma demo_indexURL: "indexURL \<lparr>Scheme = ''https'', Opaque = [], User = None, Host = ''repo.example'',
        Path = ''/charts'', RawPath = [], ForceQuery = False, RawQuery = [],
        Fragment = [], RawFragment = []\<rparr> = ''https://repo.example/charts/index.yaml''"
  by code_simp





section \<open>Resolving a reference URL\<close>








section \<open>Finding a chart through the cache\<close>

lemma DownloadIndexFile_world:
  "DownloadIndexFile x w r = (d, w') \<Longrightarrow>
   randCalls w' = randCalls w \<and> IndexFileCache w' = IndexFileCache w \<and> lookups w' = lookups w
   \<and> length (requests w') \<le> Suc (length (requests w))"
  by (auto simp: DownloadIndexFile_def Let_def split: sum.splits option.splits)

lemma GetAndCacheIndexFile_world:
  assumes "GetAndCacheIndexFile x w repoURL u p cert key ca getters = (res, w')"
  shows "randCalls w' = Suc (randCalls w)"
    and "length (requests w') \<le> Suc (length (requests w))"
    and "lookups w' = lookups w"
    and "\<And>e. res = Inl e \<Longrightarrow> IndexFileCache w' = IndexFileCache w"
    and "\<And>i. res = Inr i \<Longrightarrow> IndexFileCache w' = (IndexFileCache w)(repoURL \<mapsto> IndexValue i)"
  using assms
  by (auto simp: GetAndCacheIndexFile_def Let_def split: sum.splits prod.splits download.splits
           dest: DownloadIndexFile_world)

lemma FindChart_chosen:
  assumes "IndexFileCache w repoURL = Some (IndexValue idx) \<and> w1 = w
           \<or> IndexFileCache w repoURL = None
             \<and> GetAndCacheIndexFile x w repoURL u p cert key ca getters = (Inr idx, w1)"
  shows "FindChartInAuthRepoURL x w repoURL u p chartName chartVersion cert key ca getters =
         (Done (fst (findChart x w1 idx repoURL u p chartName chartVersion cert key ca getters)),
          snd (findChart x w1 idx repoURL u p chartName chartVersion cert key ca getters))"
  using assms by (auto simp: FindChartInAuthRepoURL_def split: prod.splits)

lemma FindChart_poisoned:
  "IndexFileCache w repoURL = Some CacheValue \<Longrightarrow>
   FindChartInAuthRepoURL x w repoURL u p chartName chartVersion cert key ca getters = (Panic, w)"
  by (simp add: FindChartInAuthRepoURL_def)

text \<open>
  Claim C1, as amended. \<open>w1\<close> is the world once the index is chosen: \<open>w\<close> itself on
  a cache hit, the world after the first fetch on a miss. When the first \<open>Get\<close> fails,
  the cache entry is deleted and the index is fetched again, on a hit and on a miss
  alike: one more fetch cycle and at most one more request in the whole call. If that
  fetch fails, its error is returned, \<open>Get\<close> is not called again and the cache entry
  stays deleted. If it succeeds, \<open>Get\<close> is called exactly once more (two calls in
  all), and when that call fails too the result is the error "chart NAME [version
  CONSTRAINT] not found in URL repository", with the cache holding the fetched
  index; nothing is fetched or looked up after that.
\<close>

theorem FindChart_retry:
  assumes chosen: "IndexFileCache w repoURL = Some (IndexValue idx) \<and> w1 = w
           \<or> IndexFileCache w repoURL = None
             \<and> GetAndCacheIndexFile x w repoURL u p cert key ca getters = (Inr idx, w1)"
      and failed: "IndexFile_Get x idx chartName chartVersion = Inl e"
      and refetch: "GetAndCacheIndexFile x
                      (w1\<lparr>lookups := lookups w1 @ [(chartName, chartVersion)],
                          IndexFileCache := (IndexFileCache w1)(repoURL := None)\<rparr>)
                      repoURL u p cert key ca getters = (res, w2)"
  shows "randCalls (snd (FindChartInAuthRepoURL x w repoURL u p chartName chartVersion cert key ca getters))
           = Suc (randCalls w1)
       \<and> length (requests (snd (FindChartInAuthRepoURL x w repoURL u p chartName chartVersion cert key ca getters)))
           \<le> Suc (length (requests w1))
       \<and> (\<forall>e2. res = Inl e2 \<longrightarrow>
            FindChartInAuthRepoURL x w repoURL u p chartName chartVersion cert key ca getters
              = (Done (Inl e2), w2)
            \<and> IndexFileCache w2 repoURL = None
            \<and> lookups w2 = lookups w1 @ [(chartName, chartVersion)])
       \<and> (\<forall>idx2. res = Inr idx2 \<longrightarrow>
            lookups (snd (FindChartInAuthRepoURL x w repoURL u p chartName chartVersion cert key ca getters))
              = lookups w1 @ [(chartName, chartVersion), (chartName, chartVersion)]
            \<and> (\<forall>e3. IndexFile_Get x idx2 chartName chartVersion = Inl e3 \<longrightarrow>
                  FindChartInAuthRepoURL x w repoURL u p chartName chartVersion cert key ca getters
                    = (Done (Inl (Errorf (''chart '' @ Quote x chartName
                          @ (if chartVersion = [] then [] else '' version '' @ Quote x chartVersion)
                          @ '' not found in '' @ repoURL @ '' repository''))),
                       w2\<lparr>lookups := lookups w2 @ [(chartName, chartVersion)]\<rparr>)
                  \<and> IndexFileCache w2 repoURL = Some (IndexValue idx2)))"
proof -
  note world = GetAndCacheIndexFile_world [OF refetch]
  let ?call = "FindChartInAuthRepoURL x w repoURL u p chartName chartVersion cert key ca getters"
  let ?find = "findChart x w1 idx repoURL u p chartName chartVersion cert key ca getters"
  have run: "?call = (Done (fst ?find), snd ?find)"
    using FindChart_chosen [OF chosen] .
  have after: "randCalls (snd ?find) = randCalls w2 \<and> requests (snd ?find) = requests w2"
    using failed refetch by (auto simp: findChart_def Let_def split: sum.splits)
  have counts: "randCalls (snd ?call) = Suc (randCalls w1)
       \<and> length (requests (snd ?call)) \<le> Suc (length (requests w1))"
    using after world(1,2) by (simp add: run)
  have fetch_fails: "?call = (Done (Inl e2), w2) \<and> IndexFileCache w2 repoURL = None
       \<and> lookups w2 = lookups w1 @ [(chartName, chartVersion)]" if "res = Inl e2" for e2
    using that failed refetch world(3) world(4) [OF that] by (simp add: run findChart_def Let_def)
  have twice: "lookups (snd ?call) = lookups w1 @ [(chartName, chartVersion), (chartName, chartVersion)]"
    if "res = Inr idx2" for idx2
    using that failed refetch world(3) by (auto simp: run findChart_def Let_def split: sum.splits)
  have retry_fails: "?call = (Done (Inl (Errorf (''chart '' @ Quote x chartName
                    @ (if chartVersion = [] then [] else '' version '' @ Quote x chartVersion)
                    @ '' not found in '' @ repoURL @ '' repository''))),
                 w2\<lparr>lookups := lookups w2 @ [(chartName, chartVersion)]\<rparr>)
            \<and> IndexFileCache w2 repoURL = Some (IndexValue idx2)"
    if "res = Inr idx2" "IndexFile_Get x idx2 chartName chartVersion = Inl e3" for idx2 e3
    using that failed refetch world(5) [OF that(1)]
    by (simp add: run findChart_def errMsg_def Let_def)
  from counts fetch_fails twice retry_fails show ?thesis by blast
qed

lemma demo_resolve:
  "ResolveReferenceURL demo_url ''foo-1.3.0.tgz'' = Inr ''https://repo.example/charts/foo-1.3.0.tgz''"
  unfolding demo_url_def by code_simp

lemma demo_repository:
  "NewChartRepository demo_ext
     \<lparr>Name = nm, URL = demo_url, Username = u, Password = p, CertFile = [], KeyFile = [],
      CAFile = [], InsecureSkipTLSverify = False\<rparr> demo_getters =
   Inr \<lparr>Config = \<lparr>Name = nm, URL = demo_url, Username = u, Password = p, CertFile = [],
                    KeyFile = [], CAFile = [], InsecureSkipTLSverify = False\<rparr>,
        ChartPaths = [], IndexFile = NewIndexFile ''v1'' 7, Client = demo_getter,
        CachePath = ''/cache/repository''\<rparr>"
  by (simp add: NewChartRepository_def demo_parse demo_getters_def demo_ext_def)

lemma demo_download:
  "DownloadIndexFile demo_ext w
     \<lparr>Config = \<lparr>Name = nm, URL = demo_url, Username = ''admin'', Password = p, CertFile = [],
                    KeyFile = [], CAFile = [], InsecureSkipTLSverify = False\<rparr>,
        ChartPaths = [], IndexFile = i0, Client = demo_getter,
        CachePath = ''/cache/repository''\<rparr> =
   (Downloaded demo_new (filepath_Join [''/cache/repository'', nm @ ''-index.yaml'']),
    w\<lparr>requests := requests w @ [(''https://repo.example/charts/index.yaml'', demo_opts ''admin'' p)],
      disk := disk w @
        [MkdirAll (filepath_Dir (filepath_Join [''/cache/repository'', nm @ ''-charts.txt''])),
         WriteFile (filepath_Join [''/cache/repository'', nm @ ''-charts.txt''])
           (concat (map (\<lambda>name. name @ [CHR 0x0A]) [''bar'', ''foo''])),
         MkdirAll (filepath_Dir (filepath_Join [''/cache/repository'', nm @ ''-index.yaml''])),
         WriteFile (filepath_Join [''/cache/repository'', nm @ ''-index.yaml'']) ''new'']\<rparr>)"
  by (simp add: DownloadIndexFile_def demo_parse demo_indexURL Let_def demo_getter_def
        demo_opts_def demo_ext_def demo_new_def)

lemma demo_download_denied:
  "DownloadIndexFile demo_ext w
     \<lparr>Config = \<lparr>Name = nm, URL = demo_url, Username = [], Password = p, CertFile = [],
                    KeyFile = [], CAFile = [], InsecureSkipTLSverify = False\<rparr>,
        ChartPaths = [], IndexFile = i0, Client = demo_getter,
        CachePath = ''/cache/repository''\<rparr> =
   (DownloadFailed (Errorf ''401 Unauthorized''),
    w\<lparr>requests := requests w @ [(''https://repo.example/charts/index.yaml'', demo_opts [] p)]\<rparr>)"
  by (simp add: DownloadIndexFile_def demo_parse demo_indexURL Let_def demo_getter_def
        demo_opts_def)

lemma demo_fetch:
  "GetAndCacheIndexFile demo_ext w demo_url ''admin'' ''secret'' [] [] [] demo_getters =
     (Inr demo_new,
      w\<lparr>randCalls := Suc (randCalls w),
        requests := requests w @ [(''https://repo.example/charts/index.yaml'', demo_opts ''admin'' ''secret'')],
        disk := disk w @ demo_disk (randCalls w),
        IndexFileCache := (IndexFileCache w)(demo_url \<mapsto> IndexValue demo_new)\<rparr>)"
  by (simp add: GetAndCacheIndexFile_def Let_def demo_repository demo_download demo_disk_def)
    (simp add: demo_ext_def)

lemma demo_fetch_denied:
  "GetAndCacheIndexFile demo_ext w demo_url [] [] [] [] [] demo_getters =
     (Inl (Wrap (Errorf ''401 Unauthorized'')
        (''looks like '' @ Quote demo_ext demo_url
           @ '' is not a valid chart repository or cannot be reached'')),
      w\<lparr>randCalls := Suc (randCalls w),
        requests := requests w @ [(''https://repo.example/charts/index.yaml'', demo_opts [] [])]\<rparr>)"
  by (simp add: GetAndCacheIndexFile_def Let_def demo_repository demo_download_denied)

lemma demo_Get_old_130:
  "IndexFile_Get demo_ext demo_old ''foo'' ''1.3.0'' = Inl (Errorf ''no chart version found'')"
  by (simp add: demo_ext_def demo_Get_def demo_old_def demo_record_def)

lemma demo_Get_new_130:
  "IndexFile_Get demo_ext demo_new ''foo'' ''1.3.0'' = Inr (demo_record ''foo'' ''1.3.0'' ''sha256:remote130'')"
  by (simp add: demo_ext_def demo_Get_def demo_new_def demo_record_def)

lemma demo_Get_old_baz:
  "IndexFile_Get demo_ext demo_old ''baz'' ''9.9.9'' = Inl (Errorf ''no chart name found'')"
  by (simp add: demo_ext_def demo_Get_def demo_old_def)

lemma demo_Get_new_baz:
  "IndexFile_Get demo_ext demo_new ''baz'' ''9.9.9'' = Inl (Errorf ''no chart name found'')"
  by (simp add: demo_ext_def demo_Get_def demo_new_def)

lemma demo_hit: "IndexFileCache demo_stale demo_url = Some (IndexValue demo_old)"
  by (simp add: demo_stale_def)

text \<open>
  Claim C1 as stated fails: "retries Get exactly once" for every call whose first
  \<open>Get\<close> fails. The cache holds an index without \<open>foo 1.3.0\<close>, and the repository
  refuses a request without credentials. The first \<open>Get\<close> fails, the entry is deleted,
  the fetch fails, and the call returns the fetch error: \<open>Get\<close> was called once, not
  twice, and the error is not the "not found" one.
\<close>

theorem FindChart_refetch_fails_counterexample:
  \<open>IndexFileCache demo_stale demo_url = Some (IndexValue demo_old)
   \<and> IndexFile_Get demo_ext demo_old ''foo'' ''1.3.0'' = Inl (Errorf ''no chart version found'')
   \<and> fst (FindChartInAuthRepoURL demo_ext demo_stale demo_url [] [] ''foo'' ''1.3.0'' [] [] [] demo_getters)
       = Done (Inl (Wrap (Errorf ''401 Unauthorized'')
           ''looks like "https://repo.example/charts" is not a valid chart repository or cannot be reached''))
   \<and> lookups (snd (FindChartInAuthRepoURL demo_ext demo_stale demo_url [] [] ''foo'' ''1.3.0'' [] [] [] demo_getters))
       = [(''foo'', ''1.3.0'')]
   \<and> IndexFileCache (snd (FindChartInAuthRepoURL demo_ext demo_stale demo_url [] [] ''foo'' ''1.3.0'' [] [] [] demo_getters))
        demo_url = None\<close>
proof -
  have q: \<open>Quote demo_ext demo_url = ''"https://repo.example/charts"''\<close>
    by (simp add: demo_ext_def demo_url_def)
  have call: "FindChartInAuthRepoURL demo_ext demo_stale demo_url [] [] ''foo'' ''1.3.0'' [] [] [] demo_getters
      = (Done (Inl (Wrap (Errorf ''401 Unauthorized'')
           (''looks like '' @ Quote demo_ext demo_url
              @ '' is not a valid chart repository or cannot be reached''))),
         demo_stale\<lparr>lookups := lookups demo_stale @ [(''foo'', ''1.3.0'')],
                    IndexFileCache := (IndexFileCache demo_stale)(demo_url := None),
                    randCalls := Suc (randCalls demo_stale),
                    requests := requests demo_stale @
                      [(''https://repo.example/charts/index.yaml'', demo_opts [] [])]\<rparr>)"
    by (simp add: FindChartInAuthRepoURL_def demo_hit findChart_def Let_def demo_Get_old_130
          demo_fetch_denied)
  show ?thesis
    unfolding call by (simp add: demo_hit demo_Get_old_130 q) (simp add: demo_stale_def)
qed

text \<open>
  The theorem of C1 at two concrete worlds, asking for a chart \<open>baz\<close> that neither
  index has: with a stale cache entry (a hit) and with an empty cache (a miss). Both
  end with the "not found" error after exactly two calls of \<open>Get\<close>; the hit costs one
  fetch cycle, the miss two.
\<close>

theorem FindChart_retry_witness:
  \<open>IndexFileCache demo_stale demo_url = Some (IndexValue demo_old)
   \<and> IndexFile_Get demo_ext demo_old ''baz'' ''9.9.9'' = Inl (Errorf ''no chart name found'')
   \<and> fst (GetAndCacheIndexFile demo_ext
          (demo_stale\<lparr>lookups := lookups demo_stale @ [(''baz'', ''9.9.9'')],
             IndexFileCache := (IndexFileCache demo_stale)(demo_url := None)\<rparr>)
          demo_url ''admin'' ''secret'' [] [] [] demo_getters) = Inr demo_new
   \<and> IndexFile_Get demo_ext demo_new ''baz'' ''9.9.9'' = Inl (Errorf ''no chart name found'')
   \<and> fst (FindChartInAuthRepoURL demo_ext demo_stale demo_url ''admin'' ''secret'' ''baz'' ''9.9.9'' [] [] [] demo_getters)
       = Done (Inl (Errorf ''chart "baz" version "9.9.9" not found in https://repo.example/charts repository''))
   \<and> lookups (snd (FindChartInAuthRepoURL demo_ext demo_stale demo_url ''admin'' ''secret'' ''baz'' ''9.9.9'' [] [] [] demo_getters))
       = [(''baz'', ''9.9.9''), (''baz'', ''9.9.9'')]
   \<and> randCalls (snd (FindChartInAuthRepoURL demo_ext demo_stale demo_url ''admin'' ''secret'' ''baz'' ''9.9.9'' [] [] [] demo_getters))
       = 1
   \<and> IndexFileCache demo_empty demo_url = None
   \<and> fst (GetAndCacheIndexFile demo_ext demo_empty demo_url ''admin'' ''secret'' [] [] [] demo_getters)
       = Inr demo_new
   \<and> fst (FindChartInAuthRepoURL demo_ext demo_empty demo_url ''admin'' ''secret'' ''baz'' ''9.9.9'' [] [] [] demo_getters)
       = Done (Inl (Errorf ''chart "baz" version "9.9.9" not found in https://repo.example/charts repository''))
   \<and> lookups (snd (FindChartInAuthRepoURL demo_ext demo_empty demo_url ''admin'' ''secret'' ''baz'' ''9.9.9'' [] [] [] demo_getters))
       = [(''baz'', ''9.9.9''), (''baz'', ''9.9.9'')]
   \<and> randCalls (snd (FindChartInAuthRepoURL demo_ext demo_empty demo_url ''admin'' ''secret'' ''baz'' ''9.9.9'' [] [] [] demo_getters))
       = 2\<close>
proof -
  let ?call = "\<lambda>w. FindChartInAuthRepoURL demo_ext w demo_url ''admin'' ''secret'' ''baz'' ''9.9.9'' [] [] [] demo_getters"
  let ?fetched = "\<lambda>w. w\<lparr>randCalls := Suc (randCalls w),
        requests := requests w @ [(''https://repo.example/charts/index.yaml'', demo_opts ''admin'' ''secret'')],
        disk := disk w @ demo_disk (randCalls w),
        IndexFileCache := (IndexFileCache w)(demo_url \<mapsto> IndexValue demo_new)\<rparr>"
  let ?dropped = "\<lambda>w. w\<lparr>lookups := lookups w @ [(''baz'', ''9.9.9'')],
             IndexFileCache := (IndexFileCache w)(demo_url := None)\<rparr>"
  have q: \<open>Quote demo_ext ''baz'' = ''"baz"''\<close> \<open>Quote demo_ext ''9.9.9'' = ''"9.9.9"''\<close>
    by (simp_all add: demo_ext_def)
  have miss: "IndexFileCache demo_empty demo_url = None"
    by (simp add: demo_empty_def)
  have hit_chosen: "IndexFileCache demo_stale demo_url = Some (IndexValue demo_old) \<and> demo_stale = demo_stale
           \<or> IndexFileCache demo_stale demo_url = None
             \<and> GetAndCacheIndexFile demo_ext demo_stale demo_url ''admin'' ''secret'' [] [] [] demo_getters
                 = (Inr demo_old, demo_stale)"
    by (simp add: demo_hit)
  have miss_chosen: "IndexFileCache demo_empty demo_url = Some (IndexValue demo_new) \<and> ?fetched demo_empty = demo_empty
           \<or> IndexFileCache demo_empty demo_url = None
             \<and> GetAndCacheIndexFile demo_ext demo_empty demo_url ''admin'' ''secret'' [] [] [] demo_getters
                 = (Inr demo_new, ?fetched demo_empty)"
    using miss demo_fetch [of demo_empty] by blast
  have hit_refetch: "GetAndCacheIndexFile demo_ext (?dropped demo_stale) demo_url ''admin'' ''secret'' [] [] [] demo_getters
      = (Inr demo_new, ?fetched (?dropped demo_stale))"
    by (rule demo_fetch)
  have miss_refetch: "GetAndCacheIndexFile demo_ext (?dropped (?fetched demo_empty)) demo_url ''admin'' ''secret'' [] [] [] demo_getters
      = (Inr demo_new, ?fetched (?dropped (?fetched demo_empty)))"
    by (rule demo_fetch)
  note hit = FindChart_retry [OF hit_chosen demo_Get_old_baz hit_refetch]
  note missed = FindChart_retry [OF miss_chosen demo_Get_new_baz miss_refetch]
  have res1: \<open>fst (?call demo_stale)
       = Done (Inl (Errorf ''chart "baz" version "9.9.9" not found in https://repo.example/charts repository''))\<close>
    using hit demo_Get_new_baz by (simp add: q demo_url_def)
  have twice1: "lookups (snd (?call demo_stale)) = [(''baz'', ''9.9.9''), (''baz'', ''9.9.9'')]"
    using hit by (simp add: demo_stale_def)
  have once1: "randCalls (snd (?call demo_stale)) = 1"
    using hit by (simp add: demo_stale_def)
  have res2: \<open>fst (?call demo_empty)
       = Done (Inl (Errorf ''chart "baz" version "9.9.9" not found in https://repo.example/charts repository''))\<close>
    using missed demo_Get_new_baz by (simp add: q demo_url_def)
  have twice2: "lookups (snd (?call demo_empty)) = [(''baz'', ''9.9.9''), (''baz'', ''9.9.9'')]"
    using missed by (simp add: demo_empty_def)
  have once2: "randCalls (snd (?call demo_empty)) = 2"
    using missed by (simp add: demo_empty_def)
  have refetch1: "fst (GetAndCacheIndexFile demo_ext (?dropped demo_stale) demo_url ''admin'' ''secret'' [] [] [] demo_getters)
      = Inr demo_new"
    by (simp add: demo_fetch)
  have fetch2: "fst (GetAndCacheIndexFile demo_ext demo_empty demo_url ''admin'' ''secret'' [] [] [] demo_getters)
      = Inr demo_new"
    by (simp add: demo_fetch)
  from demo_hit demo_Get_old_baz refetch1 demo_Get_new_baz res1 twice1 once1 miss fetch2 res2 twice2 once2
  show ?thesis by simp
qed

text \<open>
  Claim C5. For every call in which \<open>Get\<close> succeeds with the record \<open>cv\<close>, at the
  first attempt or at the second: if \<open>cv\<close> has no URL the call fails with "... has no
  downloadable URLs" and with nothing else; otherwise its result is that of resolving
  exactly the first URL of \<open>cv\<close> against the repository URL: the absolute location,
  or, when one of the two does not parse, that error wrapped.
\<close>

theorem FindChart_location:
  assumes chosen: "IndexFileCache w repoURL = Some (IndexValue idx) \<and> w1 = w
           \<or> IndexFileCache w repoURL = None
             \<and> GetAndCacheIndexFile x w repoURL u p cert key ca getters = (Inr idx, w1)"
      and found: "IndexFile_Get x idx chartName chartVersion = Inr cv
           \<or> (\<exists>e idx2 w2. IndexFile_Get x idx chartName chartVersion = Inl e
                \<and> GetAndCacheIndexFile x
                      (w1\<lparr>lookups := lookups w1 @ [(chartName, chartVersion)],
                          IndexFileCache := (IndexFileCache w1)(repoURL := None)\<rparr>)
                      repoURL u p cert key ca getters = (Inr idx2, w2)
                \<and> IndexFile_Get x idx2 chartName chartVersion = Inr cv)"
  shows "fst (FindChartInAuthRepoURL x w repoURL u p chartName chartVersion cert key ca getters) =
         Done (if URLs cv = [] then
                 Inl (Errorf (''chart '' @ Quote x chartName
                    @ (if chartVersion = [] then [] else '' version '' @ Quote x chartVersion)
                    @ '' has no downloadable URLs''))
               else (case ResolveReferenceURL repoURL (hd (URLs cv)) of
                       Inl err \<Rightarrow> Inl (Wrap err ''failed to make chart URL absolute'')
                     | Inr absoluteChartURL \<Rightarrow> Inr absoluteChartURL))"
proof -
  have loc: "chartLocation x repoURL chartName chartVersion cv =
        (if URLs cv = [] then
                 Inl (Errorf (''chart '' @ Quote x chartName
                    @ (if chartVersion = [] then [] else '' version '' @ Quote x chartVersion)
                    @ '' has no downloadable URLs''))
               else (case ResolveReferenceURL repoURL (hd (URLs cv)) of
                       Inl err \<Rightarrow> Inl (Wrap err ''failed to make chart URL absolute'')
                     | Inr absoluteChartURL \<Rightarrow> Inr absoluteChartURL))"
    by (cases "URLs cv") (simp_all add: chartLocation_def errMsg_def)
  have "fst (findChart x w1 idx repoURL u p chartName chartVersion cert key ca getters)
        = chartLocation x repoURL chartName chartVersion cv"
    using found by (auto simp: findChart_def Let_def)
  with loc show ?thesis
    by (simp add: FindChart_chosen [OF chosen])
qed

text \<open>
  The theorem of C5 at a concrete world, for a version the cached index has (first
  attempt) and for one only the fetched index has (second attempt).
\<close>

theorem FindChart_location_witness:
  "IndexFileCache demo_stale demo_url = Some (IndexValue demo_old)
   \<and> IndexFile_Get demo_ext demo_old ''foo'' ''1.2.0'' = Inr (demo_record ''foo'' ''1.2.0'' ''sha256:recorded'')
   \<and> fst (FindChartInAuthRepoURL demo_ext demo_stale demo_url ''admin'' ''secret'' ''foo'' ''1.2.0'' [] [] [] demo_getters)
       = Done (Inr ''https://repo.example/charts/foo-1.2.0.tgz'')
   \<and> IndexFile_Get demo_ext demo_old ''foo'' ''1.3.0'' = Inl (Errorf ''no chart version found'')
   \<and> fst (GetAndCacheIndexFile demo_ext
          (demo_stale\<lparr>lookups := lookups demo_stale @ [(''foo'', ''1.3.0'')],
             IndexFileCache := (IndexFileCache demo_stale)(demo_url := None)\<rparr>)
          demo_url ''admin'' ''secret'' [] [] [] demo_getters) = Inr demo_new
   \<and> IndexFile_Get demo_ext demo_new ''foo'' ''1.3.0'' = Inr (demo_record ''foo'' ''1.3.0'' ''sha256:remote130'')
   \<and> fst (FindChartInAuthRepoURL demo_ext demo_stale demo_url ''admin'' ''secret'' ''foo'' ''1.3.0'' [] [] [] demo_getters)
       = Done (Inr ''https://repo.example/charts/foo-1.3.0.tgz'')"
proof -
  let ?w = "demo_stale\<lparr>lookups := lookups demo_stale @ [(''foo'', ''1.3.0'')],
             IndexFileCache := (IndexFileCache demo_stale)(demo_url := None)\<rparr>"
  have chosen: "IndexFileCache demo_stale demo_url = Some (IndexValue demo_old) \<and> demo_stale = demo_stale
           \<or> IndexFileCache demo_stale demo_url = None
             \<and> GetAndCacheIndexFile demo_ext demo_stale demo_url ''admin'' ''secret'' [] [] [] demo_getters
                 = (Inr demo_old, demo_stale)"
    by (simp add: demo_hit)
  have old120: "IndexFile_Get demo_ext demo_old ''foo'' ''1.2.0'' = Inr (demo_record ''foo'' ''1.2.0'' ''sha256:recorded'')"
    by (simp add: demo_ext_def demo_Get_def demo_old_def demo_record_def)
  have resolve120:
    "ResolveReferenceURL demo_url ''foo-1.2.0.tgz'' = Inr ''https://repo.example/charts/foo-1.2.0.tgz''"
    unfolding demo_url_def by code_simp
  have first: "fst (FindChartInAuthRepoURL demo_ext demo_stale demo_url ''admin'' ''secret'' ''foo'' ''1.2.0'' [] [] [] demo_getters)
       = Done (Inr ''https://repo.example/charts/foo-1.2.0.tgz'')"
    using FindChart_location [OF chosen, of "''foo''" "''1.2.0''" "demo_record ''foo'' ''1.2.0'' ''sha256:recorded''"]
      old120
    by (simp add: demo_record_def resolve120)
  have refetch: "fst (GetAndCacheIndexFile demo_ext ?w demo_url ''admin'' ''secret'' [] [] [] demo_getters)
      = Inr demo_new"
    by (simp add: demo_fetch)
  have found: "IndexFile_Get demo_ext demo_old ''foo'' ''1.3.0'' = Inr (demo_record ''foo'' ''1.3.0'' ''sha256:remote130'')
           \<or> (\<exists>e idx2 w2. IndexFile_Get demo_ext demo_old ''foo'' ''1.3.0'' = Inl e
                \<and> GetAndCacheIndexFile demo_ext ?w demo_url ''admin'' ''secret'' [] [] [] demo_getters = (Inr idx2, w2)
                \<and> IndexFile_Get demo_ext idx2 ''foo'' ''1.3.0'' = Inr (demo_record ''foo'' ''1.3.0'' ''sha256:remote130''))"
    using demo_Get_old_130 demo_Get_new_130 demo_fetch [of ?w] by blast
  have second: "fst (FindChartInAuthRepoURL demo_ext demo_stale demo_url ''admin'' ''secret'' ''foo'' ''1.3.0'' [] [] [] demo_getters)
       = Done (Inr ''https://repo.example/charts/foo-1.3.0.tgz'')"
    using FindChart_location [OF chosen found]
    by (simp add: demo_record_def demo_resolve)
  from demo_hit old120 first demo_Get_old_130 refetch demo_Get_new_130 second show ?thesis
    by simp
qed

text \<open>
  Claim C2 does not hold of the code. After a retry that succeeds, the cache does not
  hold the fetched index under the repository URL but the cache object itself
  (\<open>IndexFileCache.Set(repoURL, IndexFileCache, ...)\<close>), and the next call for that
  repository, which hits the cache, panics at \<open>value.(*IndexFile)\<close>.
\<close>

theorem FindChart_retry_stores_cache_object:
  "fst (FindChartInAuthRepoURL demo_ext demo_stale demo_url ''admin'' ''secret'' ''foo'' ''1.3.0'' [] [] [] demo_getters)
     = Done (Inr ''https://repo.example/charts/foo-1.3.0.tgz'')
   \<and> IndexFileCache
       (snd (FindChartInAuthRepoURL demo_ext demo_stale demo_url ''admin'' ''secret'' ''foo'' ''1.3.0'' [] [] [] demo_getters))
       demo_url = Some CacheValue
   \<and> fst (FindChartInAuthRepoURL demo_ext
       (snd (FindChartInAuthRepoURL demo_ext demo_stale demo_url ''admin'' ''secret'' ''foo'' ''1.3.0'' [] [] [] demo_getters))
       demo_url ''admin'' ''secret'' ''foo'' ''1.3.0'' [] [] [] demo_getters)
     = Panic"
proof -
  let ?call = "FindChartInAuthRepoURL demo_ext demo_stale demo_url ''admin'' ''secret'' ''foo'' ''1.3.0'' [] [] [] demo_getters"
  have res: "fst ?call = Done (Inr ''https://repo.example/charts/foo-1.3.0.tgz'')"
    by (simp add: FindChartInAuthRepoURL_def demo_hit findChart_def Let_def demo_Get_old_130
          demo_fetch demo_Get_new_130 chartLocation_def demo_record_def demo_resolve)
  have cache: "IndexFileCache (snd ?call) demo_url = Some CacheValue"
    by (simp add: FindChartInAuthRepoURL_def demo_hit findChart_def Let_def demo_Get_old_130
          demo_fetch demo_Get_new_130)
  from res cache show ?thesis
    by (simp add: FindChart_poisoned)
qed

text \<open>
  Claim C10. \<open>FindChartInRepoURL\<close> is \<open>FindChartInAuthRepoURL\<close> with an empty user
  name and an empty password: the same result and the same effects on the world, for
  every world and all arguments.
\<close>

theorem FindChartInRepoURL_is_auth_without_credentials:
  "FindChartInRepoURL x w repoURL chartName chartVersion certFile keyFile caFile getters =
   FindChartInAuthRepoURL x w repoURL [] [] chartName chartVersion certFile keyFile caFile getters"
  by (simp add: FindChartInRepoURL_def)

end
